theory Spec2Isabelle
  imports Complex_Main "HOL-Library.Multiset"
begin

section \<open>Job fields and the per-scraper field lists\<close>

text \<open>
  Modelled from the spec: the enum \<open>JobField\<close> lives in \<open>jobfunnel.resources\<close>, which
  is not among the sources. The members below are the ones the two scraper modules
  name (\<open>TAGS\<close> only in a comment) and the spec's FieldId lists.
\<close>

datatype JobField =
  TITLE | COMPANY | LOCATION | POST_DATE | URL | KEY_ID | DESCRIPTION | TAGS

text \<open>
  The two scraper families of the sources: \<open>BaseMonsterScraper\<close> (monster.py) and
  \<open>StaticGlassDoorScraper\<close> (glassdoor/static.py).
\<close>

datatype scraper = Monster | GlassDoor

text \<open>The properties \<open>min_required_job_fields\<close>, \<open>job_get_fields\<close> and
  \<open>job_set_fields\<close> of each class, in the order the source lists them.\<close>

fun min_required_job_fields :: "scraper \<Rightarrow> JobField list" where
  "min_required_job_fields Monster = [TITLE, COMPANY, LOCATION, KEY_ID, URL]"
| "min_required_job_fields GlassDoor = [TITLE, COMPANY, LOCATION, KEY_ID, URL]"

fun job_get_fields :: "scraper \<Rightarrow> JobField list" where
  "job_get_fields Monster = [TITLE, COMPANY, LOCATION, POST_DATE, URL]"
| "job_get_fields GlassDoor = [TITLE, COMPANY, LOCATION, POST_DATE, URL, KEY_ID]"

fun job_set_fields :: "scraper \<Rightarrow> JobField list" where
  "job_set_fields Monster = [KEY_ID, DESCRIPTION]"
| "job_set_fields GlassDoor = [DESCRIPTION]"

section \<open>Radius conversion of the Monster locale variants\<close>

text \<open>\<open>MonsterScraperCANEng._convert_radius\<close>: Python's unbounded \<open>int\<close>, the
  \<open>if\<close>/\<open>elif\<close> chain in the source's order; a radius no branch takes is returned
  unchanged.\<close>

definition MonsterScraperCANEng_convert_radius :: "int \<Rightarrow> int" where
  "MonsterScraperCANEng_convert_radius radius =
     (if radius < 5 then 0
      else if 5 \<le> radius \<and> radius < 10 then 5
      else if 10 \<le> radius \<and> radius < 20 then 10
      else if 20 \<le> radius \<and> radius < 50 then 20
      else if 50 \<le> radius \<and> radius < 100 then 50
      else if radius \<ge> 100 then 100
      else radius)"

text \<open>\<open>MonsterScraperUSAEng._convert_radius\<close>.\<close>

definition MonsterScraperUSAEng_convert_radius :: "int \<Rightarrow> int" where
  "MonsterScraperUSAEng_convert_radius radius =
     (if radius < 5 then 0
      else if 5 \<le> radius \<and> radius < 10 then 5
      else if 10 \<le> radius \<and> radius < 20 then 10
      else if 20 \<le> radius \<and> radius < 30 then 20
      else if 30 \<le> radius \<and> radius < 40 then 30
      else if 40 \<le> radius \<and> radius < 50 then 40
      else if 50 \<le> radius \<and> radius < 60 then 50
      else if 60 \<le> radius \<and> radius < 75 then 60
      else if 75 \<le> radius \<and> radius < 100 then 75
      else if 100 \<le> radius \<and> radius < 150 then 100
      else if 150 \<le> radius \<and> radius < 200 then 150
      else if radius \<ge> 200 then 200
      else radius)"

section \<open>Python values the scrapers compute with\<close>

text \<open>
  Exceptions are values. \<open>IndexError\<close> is what \<open>re.findall(...)[0]\<close> raises on an
  empty match list (the spec's ResultCountUnparsable), \<open>AttributeError\<close> what
  \<open>soup.find(...)\<close> returning \<open>None\<close> leads to at the next attribute access,
  \<open>OverflowError\<close> and \<open>ZeroDivisionError\<close> come from \<open>int / int\<close>, and
  \<open>RequestException\<close> stands for any exception of \<open>session.get\<close> or
  \<open>session.post\<close>.
\<close>

datatype py_error =
  AttributeError | IndexError | OverflowError | ZeroDivisionError
  | NotImplementedError | RequestException | DateParseError

subsection \<open>Strings\<close>

text \<open>
  A string is a list of 8-bit characters, read as the code points 0 to 255. In that
  range the regular expression class \<open>\d\<close> is the ten ASCII digits and
  \<open>str.strip()\<close> removes the code points 9 to 13, 28 to 32, 133 and 160.
\<close>

definition is_digit :: "char \<Rightarrow> bool" where
  "is_digit c = (let n = (of_char c :: nat) in 48 \<le> n \<and> n \<le> 57)"

definition is_space :: "char \<Rightarrow> bool" where
  "is_space c = (let n = (of_char c :: nat) in
     (9 \<le> n \<and> n \<le> 13) \<or> (28 \<le> n \<and> n \<le> 32) \<or> n = 133 \<or> n = 160)"

definition py_strip :: "string \<Rightarrow> string" where
  "py_strip s = rev (dropWhile is_space (rev (dropWhile is_space s)))"

text \<open>\<open>s.replace(',', '')\<close>.\<close>

definition py_replace_comma :: "string \<Rightarrow> string" where
  "py_replace_comma s = filter (\<lambda>c. c \<noteq> CHR '','') s"

text \<open>\<open>re.findall(r'(\d+)', s)\<close>: the maximal runs of digits, left to right.\<close>

function findall_digits :: "string \<Rightarrow> string list" where
  "findall_digits [] = []"
| "findall_digits (c # cs) =
     (if is_digit c
      then (c # takeWhile is_digit cs) # findall_digits (dropWhile is_digit cs)
      else findall_digits cs)"
  by pat_completeness auto
termination
  by (relation "measure length") (auto simp: length_dropWhile_le less_Suc_eq_le)

text \<open>\<open>int(ds)\<close> on a run of digits. (The limit an interpreter may put on the
  length of the digit string is not modelled.)\<close>

definition digit_value :: "char \<Rightarrow> int" where
  "digit_value c = of_char c - 48"

definition py_int :: "string \<Rightarrow> int" where
  "py_int ds = foldl (\<lambda>acc c. 10 * acc + digit_value c) 0 ds"

text \<open>\<open>int(re.findall(r'(\d+)', s)[0])\<close>.\<close>

definition first_digit_run :: "string \<Rightarrow> py_error + int" where
  "first_digit_run s =
     (case findall_digits s of [] \<Rightarrow> Inl IndexError | d # _ \<Rightarrow> Inr (py_int d))"

text \<open>\<open>str(n)\<close> of an integer.\<close>

function str_digits :: "int \<Rightarrow> string" where
  "str_digits n =
     (if n < 10 then [char_of (48 + n)]
      else str_digits (n div 10) @ [char_of (48 + n mod 10)])"
  by pat_completeness auto
termination
  by (relation "measure nat") auto

declare str_digits.simps [simp del]

definition py_str :: "int \<Rightarrow> string" where
  "py_str n = (if n < 0 then CHR ''-'' # str_digits (- n) else str_digits n)"

subsection \<open>True division and ceiling\<close>

text \<open>
  \<open>a / b\<close> on two Python integers is the exact quotient rounded once to the nearest
  binary64 value, ties to even; it raises \<open>OverflowError\<close> when the rounded value is
  \<open>2 ^ 1024\<close> or more and \<open>ZeroDivisionError\<close> when \<open>b\<close> is zero. A finite float is
  modelled as a pair \<open>(m, e)\<close> that stands for \<open>m * 2 ^ e\<close>. \<open>math.ceil\<close> of a
  float is exact.
\<close>

function bit_length :: "int \<Rightarrow> nat" where
  "bit_length n = (if n \<le> 0 then 0 else Suc (bit_length (n div 2)))"
  by pat_completeness auto
termination
  by (relation "measure nat") auto

declare bit_length.simps [simp del]

text \<open>The nearest integer to \<open>p / q\<close> for \<open>0 \<le> p\<close> and \<open>0 < q\<close>, ties to even.\<close>

definition round_half_even :: "int \<Rightarrow> int \<Rightarrow> int" where
  "round_half_even p q =
     (let f = p div q; r = p mod q
      in if 2 * r < q then f
         else if q < 2 * r then f + 1
         else if even f then f else f + 1)"

text \<open>The \<open>e\<close> with \<open>2 ^ e \<le> a / b < 2 ^ (e + 1)\<close>, for \<open>0 < a\<close> and \<open>0 < b\<close>.\<close>

definition quotient_exponent :: "int \<Rightarrow> int \<Rightarrow> int" where
  "quotient_exponent a b =
     (if b \<le> a then int (bit_length (a div b)) - 1
      else - int (bit_length ((b - 1) div a)))"

definition py_truediv :: "int \<Rightarrow> int \<Rightarrow> py_error + int \<times> int" where
  "py_truediv x y =
     (if y = 0 then Inl ZeroDivisionError
      else if x = 0 then Inr (0, 0)
      else
        let a = \<bar>x\<bar>; b = \<bar>y\<bar>;
            e = max (quotient_exponent a b) (- 1022);
            m = (if e \<le> 52 then round_half_even (a * 2 ^ nat (52 - e)) b
                 else round_half_even a (b * 2 ^ nat (e - 52)))
        in if 1023 < e \<or> (e = 1023 \<and> m = 2 ^ 53) then Inl OverflowError
           else Inr (if (x < 0) = (y < 0) then m else - m, e - 52))"

definition py_ceil :: "int \<times> int \<Rightarrow> int" where
  "py_ceil x = (case x of (m, e) \<Rightarrow>
     if 0 \<le> e then m * 2 ^ nat e
     else - ((- m) div 2 ^ nat (- e)))"

text \<open>\<open>int(ceil(a / b))\<close>.\<close>

definition ceil_truediv :: "int \<Rightarrow> int \<Rightarrow> py_error + int" where
  "ceil_truediv a b =
     (case py_truediv a b of
        Inl err \<Rightarrow> Inl err
      | Inr q \<Rightarrow> Inr (py_ceil q))"

section \<open>The page count of a search\<close>

definition MAX_RESULTS_PER_MONSTER_PAGE :: int where
  "MAX_RESULTS_PER_MONSTER_PAGE = 25"

text \<open>
  \<open>BaseMonsterScraper._get_num_search_result_pages\<close>, from the text of the
  \<open>h2\<close> element of class \<open>figure\<close> on: \<open>.strip()\<close>, the first run of digits,
  the division by the page size.
\<close>

definition monster_num_res :: "string \<Rightarrow> py_error + int" where
  "monster_num_res figure_text = first_digit_run (py_strip figure_text)"

definition monster_num_pages :: "string \<Rightarrow> py_error + int" where
  "monster_num_pages figure_text =
     (case monster_num_res figure_text of
        Inl err \<Rightarrow> Inl err
      | Inr num_res \<Rightarrow> ceil_truediv num_res MAX_RESULTS_PER_MONSTER_PAGE)"

text \<open>
  \<open>StaticGlassDoorScraper._get_num_search_result_pages\<close>, from the text of the
  \<open>p\<close> element of class \<open>jobsCount\<close> on. The attribute
  \<open>max_results_per_page\<close> is set in a base class that is not among the sources; it
  is a parameter here.
\<close>

definition glassdoor_num_res :: "string \<Rightarrow> py_error + int" where
  "glassdoor_num_res jobsCount_text =
     first_digit_run (py_replace_comma (py_strip jobsCount_text))"

definition glassdoor_num_pages :: "int \<Rightarrow> string \<Rightarrow> py_error + int" where
  "glassdoor_num_pages max_results_per_page jobsCount_text =
     (case glassdoor_num_res jobsCount_text of
        Inl err \<Rightarrow> Inl err
      | Inr num_res \<Rightarrow> ceil_truediv num_res max_results_per_page)"

section \<open>Documents, requests and the session\<close>

text \<open>
  A parsed document (\<open>BeautifulSoup(response.text, parser)\<close>) is modelled by the
  answers to the queries the scrapers put to it. \<open>find\<close> returns \<open>None\<close> when no
  element matches, and so does \<open>get\<close> for a missing attribute; an element's
  \<open>.text\<close> is a string.
\<close>

text \<open>The lookups of the form \<open>soup.find(...).find('a').get('href')\<close>.\<close>

datatype anchor_lookup = NoElement | NoAnchor | Anchor "string option"

text \<open>One listing of a Monster results page (a \<open>div\<close> of class \<open>flex-row\<close>).\<close>

record monster_job_soup =
  h2_title :: "string option"
  div_company :: "string option"
  div_location :: "string option"
  time_text :: "string option"
  a_data_bypass :: "string option option"

text \<open>A document served by Monster: the results count header, the listings, and the
  description block of a detail page.\<close>

record monster_soup =
  h2_figure :: "string option"
  div_flex_row :: "monster_job_soup list"
  id_JobDescription :: "string option"

text \<open>One listing of a GlassDoor results page (an \<open>li\<close> of class \<open>jl\<close>).\<close>

record glassdoor_job_soup =
  data_normalize_job_title :: "string option"
  div_jobEmpolyerName :: "string option"
  data_job_loc :: "string option"
  div_post_date :: "string option"
  data_id :: "string option"
  div_logoWrap :: anchor_lookup

record glassdoor_soup =
  p_jobsCount :: "string option"
  li_next :: anchor_lookup
  li_jl :: "glassdoor_job_soup list"
  id_JobDescriptionContainer :: "string option"

datatype request = GET string | POST string

text \<open>
  What a Monster scraper works in: the URL \<open>self._get_search_url()\<close> returns, and
  \<open>session.get\<close> followed by parsing, which either raises or yields a document,
  the same each time a URL is asked for.
\<close>

record monster_env =
  ms_search_url :: string
  ms_get :: "string \<Rightarrow> py_error + monster_soup"

text \<open>
  What a GlassDoor scraper works in. \<open>get_search_url\<close>, \<open>max_results_per_page\<close>
  and the search configuration are defined outside the sources and are parameters:
  the search URL (its POST data is fixed with it), the configured domain, the page
  size, \<open>session.post\<close> on the search URL, which yields the response's URL and its
  document, and \<open>session.get\<close>.
\<close>

record glassdoor_env =
  gd_search_url :: string
  gd_domain :: string
  gd_max_results_per_page :: int
  gd_post :: "string \<Rightarrow> py_error + string \<times> glassdoor_soup"
  gd_get :: "string \<Rightarrow> py_error + glassdoor_soup"

text \<open>
  What a call did and returned: the requests of the calling thread in order, the
  requests of the worker pool (in no order), and the value returned or the exception
  raised.
\<close>

record 'a outcome =
  main_requests :: "request list"
  pool_requests :: "request multiset"
  returned :: "py_error + 'a"

section \<open>Monster: the listing fragments of a search\<close>

text \<open>\<open>BaseMonsterScraper._get_num_search_result_pages\<close>.\<close>

definition monster_get_num_search_result_pages :: "monster_env \<Rightarrow> string \<Rightarrow> py_error + int" where
  "monster_get_num_search_result_pages env search_url =
     (case ms_get env search_url of
        Inl err \<Rightarrow> Inl err
      | Inr soup_base \<Rightarrow>
          (case h2_figure soup_base of
             None \<Rightarrow> Inl AttributeError
           | Some text \<Rightarrow> monster_num_pages text))"

text \<open>\<open>BaseMonsterScraper._get_job_soups_from_search_page\<close>.\<close>

definition monster_page_url :: "string \<Rightarrow> int \<Rightarrow> string" where
  "monster_page_url search_url pages = search_url @ ''&start='' @ py_str pages"

definition monster_get_job_soups_from_search_page ::
  "monster_env \<Rightarrow> string \<Rightarrow> int \<Rightarrow> py_error + monster_job_soup list" where
  "monster_get_job_soups_from_search_page env search_url pages =
     (case ms_get env (monster_page_url search_url pages) of
        Inl err \<Rightarrow> Inl err
      | Inr soup \<Rightarrow> Inr (div_flex_row soup))"

text \<open>\<open>BaseMonsterScraper.get_job_soups_from_search_result_listings\<close>. Everything
  runs in the calling thread and nothing catches an exception.\<close>

definition monster_get_job_soups_from_search_result_listings ::
  "monster_env \<Rightarrow> monster_job_soup list outcome" where
  "monster_get_job_soups_from_search_result_listings env =
     (let search_url = ms_search_url env in
      case monster_get_num_search_result_pages env search_url of
        Inl err \<Rightarrow>
          \<lparr>main_requests = [GET search_url], pool_requests = {#}, returned = Inl err\<rparr>
      | Inr pages \<Rightarrow>
          \<lparr>main_requests = [GET search_url, GET (monster_page_url search_url pages)],
           pool_requests = {#},
           returned = monster_get_job_soups_from_search_page env search_url pages\<rparr>)"

section \<open>GlassDoor: the listing fragments of a search\<close>

text \<open>
  \<open>re.sub(r'_IP\d+\.', repl, s)\<close>. A match at the head of \<open>s\<close> is \<open>_IP\<close>, the
  maximal run of digits after it, which must not be empty, and a dot; \<open>match_IP\<close>
  returns what follows the match.
\<close>

definition match_IP :: "string \<Rightarrow> string option" where
  "match_IP s =
     (case s of
        c1 # c2 # c3 # rest \<Rightarrow>
          (if c1 = CHR ''_'' \<and> c2 = CHR ''I'' \<and> c3 = CHR ''P''
              \<and> takeWhile is_digit rest \<noteq> []
           then (case dropWhile is_digit rest of
                   d # after \<Rightarrow> if d = CHR ''.'' then Some after else None
                 | [] \<Rightarrow> None)
           else None)
      | _ \<Rightarrow> None)"

function re_sub_IP :: "string \<Rightarrow> string \<Rightarrow> string" where
  "re_sub_IP repl [] = []"
| "re_sub_IP repl (c # cs) =
     (case match_IP (c # cs) of
        Some after \<Rightarrow> repl @ re_sub_IP repl after
      | None \<Rightarrow> c # re_sub_IP repl cs)"
  by pat_completeness auto
termination
proof (relation "measure (\<lambda>(repl, s). length s)")
  fix repl :: string and c cs after
  assume "match_IP (c # cs) = Some after"
  then obtain rest d where "length cs = Suc (Suc (length rest))"
    and "dropWhile is_digit rest = d # after"
    by (auto simp: match_IP_def split: list.splits if_splits)
  moreover have "length (dropWhile is_digit rest) \<le> length rest"
    by (rule length_dropWhile_le)
  ultimately show "((repl, after), (repl, c # cs)) \<in> measure (\<lambda>(repl, s). length s)"
    by simp
qed simp_all

text \<open>Whether \<open>_IP\d+\.\<close> matches somewhere in \<open>s\<close>.\<close>

fun has_IP_match :: "string \<Rightarrow> bool" where
  "has_IP_match [] = False"
| "has_IP_match (c # cs) = (match_IP (c # cs) \<noteq> None \<or> has_IP_match cs)"

text \<open>An f-string renders \<open>None\<close> as the four letters.\<close>

definition py_format :: "string option \<Rightarrow> string" where
  "py_format v = (case v of None \<Rightarrow> ''None'' | Some s \<Rightarrow> s)"

text \<open>The URL of page \<open>page\<close> (the \<open>else\<close> branch of the loop), from the
  \<open>href\<close> of the next link of the first page.\<close>

definition glassdoor_page_url :: "string \<Rightarrow> string option \<Rightarrow> int \<Rightarrow> string" where
  "glassdoor_page_url domain part_url page =
     re_sub_IP (''_IP'' @ py_str page @ ''.'')
       (''https://www.glassdoor.'' @ domain @ py_format part_url)"

text \<open>\<open>StaticGlassDoorScraper._get_num_search_result_pages\<close>.\<close>

definition glassdoor_get_num_search_result_pages ::
  "glassdoor_env \<Rightarrow> glassdoor_soup \<Rightarrow> py_error + int" where
  "glassdoor_get_num_search_result_pages env soup_base =
     (case p_jobsCount soup_base of
        None \<Rightarrow> Inl AttributeError
      | Some text \<Rightarrow> glassdoor_num_pages (gd_max_results_per_page env) text)"

text \<open>
  The loop \<open>for page in range(1, n_pages + 1)\<close>: the URLs of the tasks it submits, and
  the exception that ends it early, if any. Tasks submitted before the exception
  stay in the pool.
\<close>

fun submit_pages ::
  "string \<Rightarrow> string \<Rightarrow> glassdoor_soup \<Rightarrow> int list \<Rightarrow> string list \<times> py_error option" where
  "submit_pages domain response_url soup_base [] = ([], None)"
| "submit_pages domain response_url soup_base (page # pages) =
     (if page = 1
      then (case submit_pages domain response_url soup_base pages of
              (urls, err) \<Rightarrow> (response_url # urls, err))
      else (case li_next soup_base of
              Anchor part_url \<Rightarrow>
                (case submit_pages domain response_url soup_base pages of
                   (urls, err) \<Rightarrow> (glassdoor_page_url domain part_url page # urls, err))
            | _ \<Rightarrow> ([], Some AttributeError)))"

text \<open>
  \<open>StaticGlassDoorScraper._search_page_for_job_soups\<close> as a pool task: what it
  extends \<open>job_soup_list\<close> with. An exception in it stays in its future, which
  nothing reads, so the task then adds nothing.
\<close>

definition search_page_for_job_soups :: "glassdoor_env \<Rightarrow> string \<Rightarrow> glassdoor_job_soup list" where
  "search_page_for_job_soups env url =
     (case gd_get env url of Inl err \<Rightarrow> [] | Inr soup \<Rightarrow> li_jl soup)"

text \<open>
  The pool runs the submitted tasks in an order the code does not fix; each
  \<open>extend\<close> is atomic. \<open>order\<close> lists the task indices in the order of their
  \<open>extend\<close>; \<open>wait\<close> returns when all are done, so a run's order is a permutation
  of the indices.
\<close>

definition is_pool_order :: "nat list \<Rightarrow> nat \<Rightarrow> bool" where
  "is_pool_order order n = (mset order = mset [0..<n])"

definition run_pool :: "glassdoor_env \<Rightarrow> nat list \<Rightarrow> string list \<Rightarrow> glassdoor_job_soup list" where
  "run_pool env order urls =
     concat (map (\<lambda>i. if i < length urls then search_page_for_job_soups env (urls ! i) else [])
               order)"

text \<open>\<open>StaticGlassDoorScraper.get_job_soups_from_search_result_listings\<close>.\<close>

definition glassdoor_get_job_soups_from_search_result_listings ::
  "glassdoor_env \<Rightarrow> nat list \<Rightarrow> glassdoor_job_soup list outcome" where
  "glassdoor_get_job_soups_from_search_result_listings env order =
     (let search_url = gd_search_url env in
      case gd_post env search_url of
        Inl err \<Rightarrow>
          \<lparr>main_requests = [POST search_url], pool_requests = {#}, returned = Inl err\<rparr>
      | Inr (response_url, soup_base) \<Rightarrow>
          (case glassdoor_get_num_search_result_pages env soup_base of
             Inl err \<Rightarrow>
               \<lparr>main_requests = [POST search_url], pool_requests = {#}, returned = Inl err\<rparr>
           | Inr n_pages \<Rightarrow>
               (case submit_pages (gd_domain env) response_url soup_base [1..n_pages] of
                  (urls, err) \<Rightarrow>
                    \<lparr>main_requests = [POST search_url],
                     pool_requests = mset (map GET urls),
                     returned =
                       (case err of
                          Some e \<Rightarrow> Inl e
                        | None \<Rightarrow> Inr (run_pool env order urls))\<rparr>)))"

text \<open>
  The address the loop gives page \<open>page\<close>: the first response's URL for page 1
  (the \<open>if\<close> branch), the rewritten next link for the others (the \<open>else\<close>
  branch).
\<close>

definition page_address :: "string \<Rightarrow> string \<Rightarrow> string option \<Rightarrow> int \<Rightarrow> string" where
  "page_address d u part_url p = (if p = 1 then u else glassdoor_page_url d part_url p)"

section \<open>The fields of a job\<close>

text \<open>
  What \<open>get\<close> returns and a job holds: a string, \<open>None\<close> (what \<open>soup.get\<close>
  returns for a missing attribute) or a date, which is a day number here.
\<close>

datatype jvalue = Str string | PyNone | Date int

text \<open>
  Modelled from the spec: the class \<open>Job\<close> is in \<open>jobfunnel.backend\<close>, not among
  the sources. Section 3 of the spec has a JobRecord as a mapping from FieldId to the
  extracted values; a field that was not extracted is absent.
\<close>

type_synonym job = "JobField \<rightharpoonup> jvalue"










subsection \<open>From a fragment to a job\<close>







section \<open>Example inputs\<close>

text \<open>A GlassDoor listing with the given \<open>data-id\<close>, and a results page with a
  count text, a next link and listings.\<close>

definition example_listing :: "string \<Rightarrow> glassdoor_job_soup" where
  "example_listing k =
     \<lparr>data_normalize_job_title = Some ''engineer'', div_jobEmpolyerName = Some '' Acme '',
      data_job_loc = Some ''Toronto'', div_post_date = Some ''3 days ago'',
      data_id = Some k, div_logoWrap = Anchor (Some (''/partner/job.htm?id='' @ k))\<rparr>"

definition example_results_page ::
  "string \<Rightarrow> anchor_lookup \<Rightarrow> string list \<Rightarrow> glassdoor_soup" where
  "example_results_page count_text next_link ids =
     \<lparr>p_jobsCount = Some count_text, li_next = next_link,
      li_jl = map example_listing ids, id_JobDescriptionContainer = None\<rparr>"

text \<open>
  A search of 61 results, hence 3 pages of 30. The next link of the first page is
  \<open>/Job/x_IP2.htm\<close>. The first response's URL serves two listings, the address of
  page 3 one, and the address of page 2 cannot be fetched.
\<close>

definition example_glassdoor_env :: glassdoor_env where
  "example_glassdoor_env =
     \<lparr>gd_search_url = ''https://www.glassdoor.ca/Job/jobs.htm'',
      gd_domain = ''ca'',
      gd_max_results_per_page = 30,
      gd_post = (\<lambda>url. Inr (''https://www.glassdoor.ca/Job/x.htm'',
         example_results_page ''61 Jobs'' (Anchor (Some ''/Job/x_IP2.htm'')) [''a1''])),
      gd_get = (\<lambda>url.
         if url = ''https://www.glassdoor.ca/Job/x.htm''
         then Inr (example_results_page ''61 Jobs'' (Anchor (Some ''/Job/x_IP2.htm'')) [''a1'', ''a2''])
         else if url = ''https://www.glassdoor.ca/Job/x_IP3.htm''
         then Inr (example_results_page ''61 Jobs'' NoElement [''c1''])
         else Inl RequestException)\<rparr>"

text \<open>The same search with a next link that has no page index: \<open>/Job/next.htm\<close>.\<close>

definition example_repeating_env :: glassdoor_env where
  "example_repeating_env =
     \<lparr>gd_search_url = ''https://www.glassdoor.ca/Job/jobs.htm'',
      gd_domain = ''ca'',
      gd_max_results_per_page = 30,
      gd_post = (\<lambda>url. Inr (''https://www.glassdoor.ca/Job/x.htm'',
         example_results_page ''61 Jobs'' (Anchor (Some ''/Job/next.htm'')) [''a1''])),
      gd_get = (\<lambda>url.
         if url = ''https://www.glassdoor.ca/Job/x.htm''
         then Inr (example_results_page ''61 Jobs'' (Anchor (Some ''/Job/next.htm'')) [''a1''])
         else if url = ''https://www.glassdoor.ca/Job/next.htm''
         then Inr (example_results_page ''61 Jobs'' NoElement [''b1''])
         else Inl RequestException)\<rparr>"

text \<open>A search of 12 results, one page, where every \<open>session.get\<close> fails.\<close>

definition example_unreachable_env :: glassdoor_env where
  "example_unreachable_env =
     \<lparr>gd_search_url = ''https://www.glassdoor.ca/Job/jobs.htm'',
      gd_domain = ''ca'',
      gd_max_results_per_page = 30,
      gd_post = (\<lambda>url. Inr (''https://www.glassdoor.ca/Job/jobs.htm'',
         example_results_page ''12 Jobs'' NoElement [''a1''])),
      gd_get = (\<lambda>url. Inl RequestException)\<rparr>"

text \<open>A Monster listing, and a Monster search of 51 results, hence 3 pages of 25.\<close>

definition example_monster_listing :: "string \<Rightarrow> monster_job_soup" where
  "example_monster_listing k =
     \<lparr>h2_title = Some '' Developer '', div_company = Some ''Acme'',
      div_location = Some ''Toronto, ON'', time_text = Some ''2 days ago'',
      a_data_bypass = Some (Some (''https://job-openings.monster.ca/dev/'' @ k))\<rparr>"

definition example_monster_env :: monster_env where
  "example_monster_env =
     \<lparr>ms_search_url = ''https://www.monster.ca/jobs/search/?q=dev'',
      ms_get = (\<lambda>url.
         if url = ''https://www.monster.ca/jobs/search/?q=dev''
         then Inr \<lparr>h2_figure = Some ''(51 Jobs Found)'',
                   div_flex_row = [example_monster_listing ''101''],
                   id_JobDescription = None\<rparr>
         else if url = ''https://www.monster.ca/jobs/search/?q=dev&start=3''
         then Inr \<lparr>h2_figure = Some ''(51 Jobs Found)'',
                   div_flex_row = [example_monster_listing ''303''],
                   id_JobDescription = None\<rparr>
         else Inl RequestException)\<rparr>"

section \<open>The extraction-spec invariant\<close>

text \<open>
  Claim C8. For both scrapers the required fields are among the fields the scraper gets
  from the listing fragment or sets from the detail page, and no field is in both the
  get list and the set list.
\<close>

theorem extraction_spec_invariant:
  "set (min_required_job_fields sc) \<subseteq> set (job_get_fields sc) \<union> set (job_set_fields sc)
   \<and> set (job_get_fields sc) \<inter> set (job_set_fields sc) = {}"
  by (cases sc) auto

theorem extraction_spec_invariant_witness:
  "set (min_required_job_fields Monster)
     \<subseteq> set (job_get_fields Monster) \<union> set (job_set_fields Monster)
   \<and> set (job_get_fields Monster) \<inter> set (job_set_fields Monster) = {}
   \<and> KEY_ID \<in> set (job_set_fields Monster)
   \<and> KEY_ID \<in> set (job_get_fields GlassDoor)"
  using extraction_spec_invariant [of Monster] by simp

section \<open>Radius conversion: buckets, idempotence, monotonicity\<close>

lemma CAN_convert_radius_cases:
  "MonsterScraperCANEng_convert_radius r \<in> {0, 5, 10, 20, 50, 100}"
  by (simp add: MonsterScraperCANEng_convert_radius_def)

lemma USA_convert_radius_cases:
  "MonsterScraperUSAEng_convert_radius r \<in> {0, 5, 10, 20, 30, 40, 50, 60, 75, 100, 150, 200}"
  by (simp add: MonsterScraperUSAEng_convert_radius_def)

lemma CAN_convert_radius_idem:
  "MonsterScraperCANEng_convert_radius (MonsterScraperCANEng_convert_radius r)
     = MonsterScraperCANEng_convert_radius r"
  by (simp add: MonsterScraperCANEng_convert_radius_def)

lemma USA_convert_radius_idem:
  "MonsterScraperUSAEng_convert_radius (MonsterScraperUSAEng_convert_radius r)
     = MonsterScraperUSAEng_convert_radius r"
  by (simp add: MonsterScraperUSAEng_convert_radius_def)

lemma CAN_convert_radius_mono:
  "r1 \<le> r2 \<Longrightarrow>
     MonsterScraperCANEng_convert_radius r1 \<le> MonsterScraperCANEng_convert_radius r2"
  by (simp add: MonsterScraperCANEng_convert_radius_def)

lemma USA_convert_radius_mono:
  "r1 \<le> r2 \<Longrightarrow>
     MonsterScraperUSAEng_convert_radius r1 \<le> MonsterScraperUSAEng_convert_radius r2"
  by (simp add: MonsterScraperUSAEng_convert_radius_def)

text \<open>
  Claim C10. For the CAN and the USA variant, \<open>_convert_radius\<close> is idempotent and
  monotone over all integers, and its result is one of the locale's bucket values
  (CAN: 0, 5, 10, 20, 50, 100; USA: 0, 5, 10, 20, 30, 40, 50, 60, 75, 100, 150, 200).
\<close>

theorem convert_radius_idempotent_monotone:
  "MonsterScraperCANEng_convert_radius (MonsterScraperCANEng_convert_radius r)
     = MonsterScraperCANEng_convert_radius r
   \<and> MonsterScraperUSAEng_convert_radius (MonsterScraperUSAEng_convert_radius r)
     = MonsterScraperUSAEng_convert_radius r
   \<and> (r1 \<le> r2 \<longrightarrow>
        MonsterScraperCANEng_convert_radius r1 \<le> MonsterScraperCANEng_convert_radius r2
      \<and> MonsterScraperUSAEng_convert_radius r1 \<le> MonsterScraperUSAEng_convert_radius r2)
   \<and> MonsterScraperCANEng_convert_radius r \<in> {0, 5, 10, 20, 50, 100}
   \<and> MonsterScraperUSAEng_convert_radius r
       \<in> {0, 5, 10, 20, 30, 40, 50, 60, 75, 100, 150, 200}"
  using CAN_convert_radius_idem USA_convert_radius_idem CAN_convert_radius_mono
    USA_convert_radius_mono CAN_convert_radius_cases USA_convert_radius_cases
  by blast

theorem convert_radius_idempotent_monotone_witness:
  "MonsterScraperCANEng_convert_radius 37 = 20
   \<and> MonsterScraperCANEng_convert_radius 20 = 20
   \<and> MonsterScraperUSAEng_convert_radius 37 = 30
   \<and> MonsterScraperUSAEng_convert_radius 30 = 30
   \<and> (7::int) \<le> 37
   \<and> MonsterScraperCANEng_convert_radius 7 \<le> MonsterScraperCANEng_convert_radius 37
   \<and> MonsterScraperUSAEng_convert_radius 7 \<le> MonsterScraperUSAEng_convert_radius 37"
  using convert_radius_idempotent_monotone [of 37 7 37]
  by (simp add: MonsterScraperCANEng_convert_radius_def
      MonsterScraperUSAEng_convert_radius_def)

section \<open>Digit runs\<close>







lemma findall_digits_runs:
  "d \<in> set (findall_digits s) \<Longrightarrow> d \<noteq> [] \<and> (\<forall>c\<in>set d. is_digit c)"
proof (induction s rule: findall_digits.induct)
  case 1
  then show ?case by simp
next
  case (2 c cs)
  show ?case
  proof (cases "is_digit c")
    case True
    with 2(3) have "d = c # takeWhile is_digit cs
        \<or> d \<in> set (findall_digits (dropWhile is_digit cs))" by simp
    then show ?thesis
    proof
      assume "d = c # takeWhile is_digit cs"
      then show ?thesis using True by (auto dest: set_takeWhileD)
    next
      assume "d \<in> set (findall_digits (dropWhile is_digit cs))"
      then show ?thesis using 2(1) True by simp
    qed
  next
    case False
    with 2(3) have "d \<in> set (findall_digits cs)" by simp
    then show ?thesis using 2(2) False by simp
  qed
qed

lemma digit_value_nonneg:
  assumes "is_digit c"
  shows "0 \<le> digit_value c"
proof -
  have "(of_char c :: int) = int (of_char c)" by (simp only: of_nat_of_char)
  moreover have "48 \<le> (of_char c :: nat)" using assms by (simp add: is_digit_def Let_def)
  ultimately show ?thesis by (simp add: digit_value_def)
qed

lemma foldl_digits_nonneg:
  "0 \<le> acc \<Longrightarrow> \<forall>c\<in>set ds. is_digit c \<Longrightarrow>
     0 \<le> foldl (\<lambda>acc c. 10 * acc + digit_value c) acc ds"
  by (induction ds arbitrary: acc) (auto simp: digit_value_nonneg)

lemma py_int_nonneg: "\<forall>c\<in>set ds. is_digit c \<Longrightarrow> 0 \<le> py_int ds"
  unfolding py_int_def by (rule foldl_digits_nonneg) simp_all

lemma first_digit_run_nonneg: "first_digit_run s = Inr n \<Longrightarrow> 0 \<le> n"
proof -
  assume r: "first_digit_run s = Inr n"
  then obtain d ds where d: "findall_digits s = d # ds" "n = py_int d"
    by (auto simp: first_digit_run_def split: list.splits)
  then have "d \<in> set (findall_digits s)" by simp
  then have "\<forall>c\<in>set d. is_digit c" using findall_digits_runs by blast
  then show ?thesis using d(2) by (simp add: py_int_nonneg)
qed


section \<open>True division followed by ceiling\<close>

lemma bit_length_upper: "0 \<le> n \<Longrightarrow> n < 2 ^ bit_length n"
proof (induction n rule: bit_length.induct)
  case (1 n)
  show ?case
  proof (cases "n \<le> 0")
    case True
    with 1(2) have "n = 0" by simp
    then show ?thesis by simp
  next
    case False
    then have "n div 2 < 2 ^ bit_length (n div 2)" using 1 by simp
    moreover have "bit_length n = Suc (bit_length (n div 2))"
      using False by (subst bit_length.simps) simp
    ultimately show ?thesis by simp
  qed
qed

lemma bit_length_lower: "0 < n \<Longrightarrow> 2 ^ (bit_length n - 1) \<le> n"
proof (induction n rule: bit_length.induct)
  case (1 n)
  have bl: "bit_length n = Suc (bit_length (n div 2))"
    using 1(2) by (subst bit_length.simps) simp
  show ?case
  proof (cases "n div 2 \<le> 0")
    case True
    then have "bit_length (n div 2) = 0" by (subst bit_length.simps) simp
    with bl 1(2) show ?thesis by simp
  next
    case False
    then have pos: "0 < n div 2" by simp
    then have ih: "2 ^ (bit_length (n div 2) - 1) \<le> n div 2" using 1 by simp
    have "0 < bit_length (n div 2)" using pos by (subst bit_length.simps) simp
    then have "(2::int) ^ bit_length (n div 2) = 2 * 2 ^ (bit_length (n div 2) - 1)"
      by (cases "bit_length (n div 2)") simp_all
    with ih bl show ?thesis by simp
  qed
qed


lemma round_half_even_bounds:
  "p div q \<le> round_half_even p q \<and> round_half_even p q \<le> p div q + 1"
  by (simp add: round_half_even_def Let_def)

lemma round_half_even_exact: "0 < q \<Longrightarrow> p mod q = 0 \<Longrightarrow> round_half_even p q = p div q"
  by (simp add: round_half_even_def Let_def)

lemma round_half_even_up: "q < 2 * (p mod q) \<Longrightarrow> round_half_even p q = p div q + 1"
  by (simp add: round_half_even_def Let_def)

lemma quotient_exponent_ge:
  assumes "0 < a" "0 < b" "b \<le> a"
  shows "0 \<le> quotient_exponent a b"
    and "b * 2 ^ nat (quotient_exponent a b) \<le> a"
proof -
  have q: "0 < a div b" using assms by (simp add: pos_imp_zdiv_pos_iff)
  then have blpos: "0 < bit_length (a div b)" by (subst bit_length.simps) simp
  have e: "quotient_exponent a b = int (bit_length (a div b)) - 1"
    using assms by (simp add: quotient_exponent_def)
  show "0 \<le> quotient_exponent a b" using e blpos by simp
  have "nat (quotient_exponent a b) = bit_length (a div b) - 1" using e blpos by simp
  moreover have "2 ^ (bit_length (a div b) - 1) \<le> a div b" using q by (rule bit_length_lower)
  ultimately have "2 ^ nat (quotient_exponent a b) \<le> a div b" by simp
  then have "b * 2 ^ nat (quotient_exponent a b) \<le> b * (a div b)"
    using assms(2) by (simp add: mult_left_mono)
  moreover have "b * (a div b) + a mod b = a" by simp
  moreover have "0 \<le> a mod b" using assms(2) by simp
  ultimately show "b * 2 ^ nat (quotient_exponent a b) \<le> a" by linarith
qed

lemma quotient_exponent_lt:
  assumes "0 < a" "0 < b" "a < b"
  shows "quotient_exponent a b \<le> 0"
    and "b \<le> a * 2 ^ nat (- quotient_exponent a b)"
proof -
  let ?j = "bit_length ((b - 1) div a)"
  have e: "quotient_exponent a b = - int ?j"
    using assms by (simp add: quotient_exponent_def)
  show "quotient_exponent a b \<le> 0" using e by simp
  have "0 \<le> (b - 1) div a" using assms by (simp add: pos_imp_zdiv_nonneg_iff)
  then have "(b - 1) div a < 2 ^ ?j" by (rule bit_length_upper)
  then have "(b - 1) div a + 1 \<le> 2 ^ ?j" by simp
  then have "a * ((b - 1) div a + 1) \<le> a * 2 ^ ?j"
    using assms(1) by (simp add: mult_left_mono)
  moreover have "a * ((b - 1) div a) + (b - 1) mod a = b - 1" by simp
  moreover have "(b - 1) mod a < a" using assms(1) by simp
  moreover have "a * ((b - 1) div a + 1) = a * ((b - 1) div a) + a"
    by (simp add: algebra_simps)
  ultimately have "b \<le> a * 2 ^ ?j" by linarith
  then show "b \<le> a * 2 ^ nat (- quotient_exponent a b)" using e by simp
qed

lemma ceil_of_scaled:
  fixes m K :: int
  assumes "K * 2 ^ sh < m" "m \<le> (K + 1) * 2 ^ sh"
  shows "py_ceil (m, - int sh) = K + 1"
proof -
  let ?P = "(2::int) ^ sh"
  have P: "0 < ?P" by simp
  have "(- m) div ?P = - (K + 1)"
  proof (rule int_div_pos_eq [where r = "(K + 1) * ?P - m"])
    show "- m = ?P * - (K + 1) + ((K + 1) * ?P - m)" by (simp add: algebra_simps)
    show "0 \<le> (K + 1) * ?P - m" using assms(2) by simp
    show "(K + 1) * ?P - m < ?P" using assms(1) by (simp add: algebra_simps)
  qed
  then have "- ((- m) div ?P) = K + 1" by simp
  moreover have "py_ceil (m, - int sh) = - ((- m) div ?P)"
    by (cases "sh = 0") (simp_all add: py_ceil_def)
  ultimately show ?thesis by simp
qed

lemma ceil_of_exact: "py_ceil (K * 2 ^ sh, - int sh) = K"
proof (cases "sh = 0")
  case True
  then show ?thesis by (simp add: py_ceil_def)
next
  case False
  have "(- (K * 2 ^ sh)) div (2::int) ^ sh = - K"
    by (rule int_div_pos_eq [where r = 0]) simp_all
  with False show ?thesis by (simp add: py_ceil_def)
qed

lemma scaled_rounding:
  fixes a b :: int
  assumes a: "0 < a" and b: "0 < b" and sh: "b < 2 * 2 ^ sh"
  defines "m \<equiv> round_half_even (a * 2 ^ sh) b"
  shows "a mod b = 0 \<Longrightarrow> m = (a div b) * 2 ^ sh"
    and "a mod b \<noteq> 0 \<Longrightarrow> (a div b) * 2 ^ sh < m \<and> m \<le> (a div b + 1) * 2 ^ sh"
proof -
  let ?P = "(2::int) ^ sh"
  let ?k = "a div b" and ?r = "a mod b"
  let ?t = "?r * ?P"
  have split: "a * ?P = (?k * ?P) * b + ?t"
  proof -
    have aux: "\<And>k r. (k * b + r) * ?P = (k * ?P) * b + r * ?P"
      by (simp add: algebra_simps)
    have "a * ?P = (?k * b + ?r) * ?P" by (simp only: div_mult_mod_eq)
    also have "\<dots> = (?k * ?P) * b + ?t" by (rule aux)
    finally show ?thesis .
  qed
  have dv: "(a * ?P) div b = ?k * ?P + ?t div b"
    using b by (subst split) simp
  have md: "(a * ?P) mod b = ?t mod b"
    by (subst split) simp
  {
    assume "?r = 0"
    then have "(a * ?P) mod b = 0" "(a * ?P) div b = ?k * ?P" using md dv by simp_all
    then show "m = ?k * ?P"
      unfolding m_def using b by (simp add: round_half_even_exact)
  }
  {
    assume "?r \<noteq> 0"
    moreover have "0 \<le> ?r" "?r < b" using b by simp_all
    ultimately have r: "1 \<le> ?r" "?r < b" by simp_all
    have t_lo: "?P \<le> ?t" using r(1) by (simp add: mult_le_cancel_right1)
    have "?t < b * ?P" using r(2) by simp
    moreover have "b * (?t div b) + ?t mod b = ?t" by simp
    moreover have "0 \<le> ?t mod b" using b by simp
    ultimately have "b * (?t div b) < b * ?P" by linarith
    then have "?t div b < ?P" using b by (simp only: mult_less_cancel_left_pos)
    then have up: "(a * ?P) div b + 1 \<le> (?k + 1) * ?P" using dv by (simp add: algebra_simps)
    have lo: "?k * ?P < m"
    proof (cases "?t div b = 0")
      case True
      have "0 \<le> ?t" using r(1) by simp
      moreover have "b * (?t div b) + ?t mod b = ?t" by simp
      moreover have "?t mod b < b" using b by simp
      ultimately have "?t < b" using True by simp
      then have "?t mod b = ?t" using \<open>0 \<le> ?t\<close> by simp
      then have "(a * ?P) mod b = ?t" using md by simp
      then have "b < 2 * ((a * ?P) mod b)" using t_lo sh by linarith
      then have "m = (a * ?P) div b + 1" unfolding m_def by (rule round_half_even_up)
      then show ?thesis using dv True by simp
    next
      case False
      have "0 \<le> ?t div b" using r(1) b by (simp add: pos_imp_zdiv_nonneg_iff)
      then have "1 \<le> ?t div b" using False by simp
      then have "?k * ?P < (a * ?P) div b" using dv by simp
      also have "\<dots> \<le> m" unfolding m_def using round_half_even_bounds by blast
      finally show ?thesis .
    qed
    have "m \<le> (a * ?P) div b + 1" unfolding m_def using round_half_even_bounds by blast
    with up lo show "?k * ?P < m \<and> m \<le> (?k + 1) * ?P" by simp
  }
qed

lemma py_truediv_small:
  assumes a: "0 < a" "a < 2 ^ 53" and b: "0 < b" "b < 2 ^ 1075"
  shows "\<exists>sh. py_truediv a b = Inr (round_half_even (a * 2 ^ sh) b, - int sh)
           \<and> b < 2 * 2 ^ sh"
proof -
  define e where "e = max (quotient_exponent a b) (- 1022)"
  have e52_sh: "e \<le> 52 \<and> b < 2 * 2 ^ nat (52 - e)"
  proof (cases "b \<le> a")
    case True
    let ?q = "nat (quotient_exponent a b)"
    have q: "0 \<le> quotient_exponent a b" "b * 2 ^ ?q \<le> a"
      using quotient_exponent_ge [OF a(1) b(1) True] by simp_all
    have "1 * 2 ^ ?q \<le> b * (2::int) ^ ?q" using b(1) by (intro mult_right_mono) simp_all
    then have "(2::int) ^ ?q < 2 ^ 53" using q(2) a(2) by linarith
    then have q53: "?q < 53" by (simp only: power_strict_increasing_iff) 
    then have e_eq: "e = int ?q" using q(1) by (simp add: e_def)
    have "b * 2 ^ ?q < 2 ^ 53" using q(2) a(2) by linarith
    also have "(2::int) ^ 53 = 2 ^ (53 - ?q) * 2 ^ ?q"
      using q53 by (simp add: power_add [symmetric])
    finally have "b < 2 ^ (53 - ?q)" by simp
    moreover have "53 - ?q = Suc (nat (52 - e))" using e_eq q53 by linarith
    ultimately have "b < 2 * 2 ^ nat (52 - e)" by simp
    moreover have "e \<le> 52" using e_eq q53 by linarith
    ultimately show ?thesis by blast
  next
    case False
    then have lt: "a < b" by simp
    let ?j = "nat (- quotient_exponent a b)"
    have q: "quotient_exponent a b \<le> 0" "b \<le> a * 2 ^ ?j"
      using quotient_exponent_lt [OF a(1) b(1) lt] by simp_all
    have e52: "e \<le> 52" using q(1) by (simp add: e_def)
    have "a * 2 ^ ?j < 2 ^ 53 * (2::int) ^ ?j" using a(2) by simp
    then have "b < 2 ^ 53 * (2::int) ^ ?j" using q(2) by linarith
    then have bj: "b < 2 ^ (53 + ?j)" by (simp only: power_add)
    have "b < 2 * 2 ^ nat (52 - e)"
    proof (cases "- 1022 \<le> quotient_exponent a b")
      case True
      then have "e = quotient_exponent a b" by (simp add: e_def)
      then have "53 + ?j = Suc (nat (52 - e))" using q(1) by simp
      with bj show ?thesis by simp
    next
      case False
      then have "e = - 1022" by (simp add: e_def)
      then have "nat (52 - e) = 1074" by simp
      then show ?thesis using b(2) by simp
    qed
    with e52 show ?thesis by simp
  qed
  then have e52: "e \<le> 52" and sh: "b < 2 * 2 ^ nat (52 - e)" by simp_all
  have "py_truediv a b = Inr (round_half_even (a * 2 ^ nat (52 - e)) b, e - 52)"
    using a(1) b(1) e52 by (simp add: py_truediv_def Let_def e_def [symmetric])
  moreover have "e - 52 = - int (nat (52 - e))" using e52 by simp
  ultimately show ?thesis using sh by metis
qed

lemma ceil_truediv_exact:
  assumes n: "0 \<le> n" "n < 2 ^ 53" and s: "0 < s" "s < 2 ^ 1075"
  shows "ceil_truediv n s = Inr \<lceil>real_of_int n / real_of_int s\<rceil>"
proof -
  have ceil: "\<lceil>real_of_int n / real_of_int s\<rceil> = - ((- n) div s)"
    by (simp add: ceiling_divide_eq_div)
  show ?thesis
  proof (cases "n = 0")
    case True
    then show ?thesis using s(1) by (simp add: ceil_truediv_def py_truediv_def py_ceil_def)
  next
    case False
    then have pos: "0 < n" using n(1) by simp
    obtain sh where td: "py_truediv n s = Inr (round_half_even (n * 2 ^ sh) s, - int sh)"
      and sh: "s < 2 * 2 ^ sh"
      using py_truediv_small [OF pos n(2) s] by blast
    show ?thesis
    proof (cases "n mod s = 0")
      case True
      then have "round_half_even (n * 2 ^ sh) s = (n div s) * 2 ^ sh"
        using scaled_rounding(1) [OF pos s(1) sh] by simp
      then have "ceil_truediv n s = Inr (n div s)"
        using td by (simp add: ceil_truediv_def ceil_of_exact)
      moreover have "- ((- n) div s) = n div s"
        using True s(1) by (simp add: zdiv_zminus1_eq_if)
      ultimately show ?thesis using ceil by simp
    next
      case False
      then have "(n div s) * 2 ^ sh < round_half_even (n * 2 ^ sh) s
          \<and> round_half_even (n * 2 ^ sh) s \<le> (n div s + 1) * 2 ^ sh"
        using scaled_rounding(2) [OF pos s(1) sh] by simp
      then have "py_ceil (round_half_even (n * 2 ^ sh) s, - int sh) = n div s + 1"
        using ceil_of_scaled by blast
      then have "ceil_truediv n s = Inr (n div s + 1)"
        using td by (simp add: ceil_truediv_def)
      moreover have "- ((- n) div s) = n div s + 1"
        using False s(1) by (simp add: zdiv_zminus1_eq_if)
      ultimately show ?thesis using ceil by simp
    qed
  qed
qed





section \<open>The result count\<close>

text \<open>
  Claim C2, at the count indicator \<open>1,234 jobs\<close>. The GlassDoor planner removes the
  commas before it looks for the first run of digits and reads 1234; the Monster
  planner does not and reads 1, hence one page. Both read 87 from \<open>87\<close>.
\<close>

theorem monster_keeps_thousands_separator:
  "monster_num_res ''1,234 jobs'' = Inr 1
   \<and> monster_num_pages ''1,234 jobs'' = Inr 1
   \<and> glassdoor_num_res ''1,234 jobs'' = Inr 1234
   \<and> monster_num_res ''87'' = Inr 87
   \<and> glassdoor_num_res ''87'' = Inr 87"
  by code_simp

section \<open>The page count\<close>

text \<open>
  Claim C4, as amended. For a total \<open>n\<close> below \<open>2 ^ 53\<close> the page count of both
  planners is \<open>ceil(n / s)\<close>, where \<open>s\<close> is 25 for Monster and, for GlassDoor, any
  positive page size below \<open>2 ^ 1075\<close>.
\<close>

theorem page_count_is_ceiling:
  "(monster_num_res t = Inr n \<and> n < 2 ^ 53 \<longrightarrow>
      monster_num_pages t
        = Inr \<lceil>real_of_int n / real_of_int MAX_RESULTS_PER_MONSTER_PAGE\<rceil>)
   \<and> (glassdoor_num_res t = Inr n \<and> n < 2 ^ 53 \<and> 0 < s \<and> s < 2 ^ 1075 \<longrightarrow>
      glassdoor_num_pages s t = Inr \<lceil>real_of_int n / real_of_int s\<rceil>)"
proof (intro conjI impI)
  assume h: "monster_num_res t = Inr n \<and> n < 2 ^ 53"
  then have "0 \<le> n" by (auto simp: monster_num_res_def dest: first_digit_run_nonneg)
  then have "ceil_truediv n MAX_RESULTS_PER_MONSTER_PAGE
      = Inr \<lceil>real_of_int n / real_of_int MAX_RESULTS_PER_MONSTER_PAGE\<rceil>"
    using h by (intro ceil_truediv_exact) (simp_all add: MAX_RESULTS_PER_MONSTER_PAGE_def)
  then show "monster_num_pages t
      = Inr \<lceil>real_of_int n / real_of_int MAX_RESULTS_PER_MONSTER_PAGE\<rceil>"
    using h by (simp add: monster_num_pages_def)
next
  assume h: "glassdoor_num_res t = Inr n \<and> n < 2 ^ 53 \<and> 0 < s \<and> s < 2 ^ 1075"
  then have "0 \<le> n" by (auto simp: glassdoor_num_res_def dest: first_digit_run_nonneg)
  then have "ceil_truediv n s = Inr \<lceil>real_of_int n / real_of_int s\<rceil>"
    using h by (intro ceil_truediv_exact) simp_all
  then show "glassdoor_num_pages s t = Inr \<lceil>real_of_int n / real_of_int s\<rceil>"
    using h by (simp add: glassdoor_num_pages_def)
qed

text \<open>230 results at 50 per page are 5 pages, at Monster's 25 per page 10 pages, and
  no results are no pages.\<close>

theorem page_count_is_ceiling_witness:
  "glassdoor_num_res ''230 jobs'' = Inr 230
   \<and> glassdoor_num_pages 50 ''230 jobs'' = Inr 5
   \<and> monster_num_pages ''230 jobs'' = Inr 10
   \<and> glassdoor_num_pages 50 ''0'' = Inr 0"
proof -
  have g: "glassdoor_num_res ''230 jobs'' = Inr 230" by code_simp
  have m: "monster_num_res ''230 jobs'' = Inr 230" by code_simp
  have z: "glassdoor_num_res ''0'' = Inr 0" by code_simp
  have "glassdoor_num_pages 50 ''230 jobs'' = Inr \<lceil>real_of_int 230 / real_of_int 50\<rceil>"
    using page_count_is_ceiling [of "''230 jobs''" 230 50] g by simp
  moreover have "monster_num_pages ''230 jobs''
      = Inr \<lceil>real_of_int 230 / real_of_int MAX_RESULTS_PER_MONSTER_PAGE\<rceil>"
    using page_count_is_ceiling [of "''230 jobs''" 230 50] m by simp
  moreover have "glassdoor_num_pages 50 ''0'' = Inr \<lceil>real_of_int 0 / real_of_int 50\<rceil>"
    using page_count_is_ceiling [of "''0''" 0 50] z by simp
  moreover have "\<lceil>real_of_int 230 / real_of_int 50\<rceil> = 5"
    by simp
  moreover have "\<lceil>real_of_int 230 / real_of_int MAX_RESULTS_PER_MONSTER_PAGE\<rceil> = 10"
    by (simp add: MAX_RESULTS_PER_MONSTER_PAGE_def)
  ultimately show ?thesis using g by simp
qed

text \<open>
  The claim as stated, for every total, fails: a total of \<open>25 * 2 ^ 49 + 1\<close> is
  \<open>2 ^ 49 + 1\<close> pages of 25, and the float quotient rounds to \<open>2 ^ 49\<close>.
\<close>

theorem page_count_counterexample:
  "monster_num_res ''14073748835532801'' = Inr 14073748835532801
   \<and> monster_num_pages ''14073748835532801'' = Inr 562949953421312
   \<and> \<lceil>real_of_int 14073748835532801 / real_of_int MAX_RESULTS_PER_MONSTER_PAGE\<rceil>
       = 562949953421313"
proof -
  have "monster_num_res ''14073748835532801'' = Inr 14073748835532801" by code_simp
  moreover have "monster_num_pages ''14073748835532801'' = Inr 562949953421312" by code_simp
  moreover have
    "\<lceil>real_of_int 14073748835532801 / real_of_int MAX_RESULTS_PER_MONSTER_PAGE\<rceil>
       = 562949953421313"
    by (simp add: MAX_RESULTS_PER_MONSTER_PAGE_def)
  ultimately show ?thesis by simp
qed

section \<open>Failure of the page count\<close>















section \<open>The fragments a search returns\<close>

lemma submit_pages_later:
  assumes "li_next soup = Anchor part_url" "\<forall>p\<in>set pages. p \<noteq> 1"
  shows "submit_pages d u soup pages = (map (glassdoor_page_url d part_url) pages, None)"
  using assms(2) by (induction pages) (simp_all add: assms(1))

lemma submit_pages_upto:
  assumes "N \<le> 1 \<or> li_next soup = Anchor part_url"
  shows "submit_pages d u soup [1..N] = (map (page_address d u part_url) [1..N], None)"
proof (cases "N < 1")
  case True
  then show ?thesis by simp
next
  case False
  then have split: "[1..N] = 1 # [2..N]" by (simp add: upto_rec1)
  have tail: "submit_pages d u soup [2..N] = (map (page_address d u part_url) [2..N], None)"
  proof (cases "N \<le> 1")
    case True
    then show ?thesis by simp
  next
    case False
    with assms have a: "li_next soup = Anchor part_url" by simp
    have "submit_pages d u soup [2..N] = (map (glassdoor_page_url d part_url) [2..N], None)"
      by (rule submit_pages_later [OF a]) auto
    moreover have "map (glassdoor_page_url d part_url) [2..N] = map (page_address d u part_url) [2..N]"
      by (rule map_cong) (auto simp: page_address_def)
    ultimately show ?thesis by simp
  qed
  show ?thesis by (simp add: split tail page_address_def)
qed

lemma mset_concat_map_perm:
  assumes "mset xs = mset ys"
  shows "mset (concat (map f xs)) = mset (concat (map f ys))"
proof -
  have "\<And>zs. mset (concat (map f zs)) = (\<Sum>z\<in>#mset zs. mset (f z))"
    by (induct_tac zs) simp_all
  then show ?thesis using assms by simp
qed

lemma run_pool_mset:
  assumes "is_pool_order order (length urls)"
  shows "mset (run_pool env order urls) = mset (concat (map (search_page_for_job_soups env) urls))"
proof -
  let ?f = "\<lambda>i. if i < length urls then search_page_for_job_soups env (urls ! i) else []"
  have "mset (run_pool env order urls) = mset (concat (map ?f [0..<length urls]))"
    unfolding run_pool_def using assms by (intro mset_concat_map_perm) (simp add: is_pool_order_def)
  moreover have "map ?f [0..<length urls] = map (search_page_for_job_soups env) urls"
    by (rule nth_equalityI) simp_all
  ultimately show ?thesis by simp
qed

lemma glassdoor_outcome:
  assumes post: "gd_post env (gd_search_url env) = Inr (u, soup)"
    and plan: "glassdoor_get_num_search_result_pages env soup = Inr N"
    and nxt: "N \<le> 1 \<or> li_next soup = Anchor part_url"
  shows "glassdoor_get_job_soups_from_search_result_listings env order =
           \<lparr>main_requests = [POST (gd_search_url env)],
            pool_requests = mset (map GET (map (page_address (gd_domain env) u part_url) [1..N])),
            returned = Inr (run_pool env order (map (page_address (gd_domain env) u part_url) [1..N]))\<rparr>"
  using post plan submit_pages_upto [OF nxt, of "gd_domain env" u]
  by (simp add: glassdoor_get_job_soups_from_search_result_listings_def Let_def
      multiset.map_comp)

lemma monster_outcome:
  assumes "monster_get_num_search_result_pages env (ms_search_url env) = Inr M"
  shows "monster_get_job_soups_from_search_result_listings env =
           \<lparr>main_requests =
              [GET (ms_search_url env), GET (ms_search_url env @ ''&start='' @ py_str M)],
            pool_requests = {#},
            returned =
              (case ms_get env (ms_search_url env @ ''&start='' @ py_str M) of
                 Inl err \<Rightarrow> Inl err
               | Inr soup \<Rightarrow> Inr (div_flex_row soup))\<rparr>"
  using assms
  by (simp add: monster_get_job_soups_from_search_result_listings_def Let_def
      monster_get_job_soups_from_search_page_def monster_page_url_def)

text \<open>
  Claim C3, as amended. GlassDoor: when the first page is fetched and planned with
  \<open>N\<close> pages (and has a next link, if \<open>N\<close> is 2 or more), the pool requests the
  address of each of the pages 1 to \<open>N\<close>, and the returned list holds, in some
  order, the listings of every page whose fetch succeeded; a failed fetch adds
  nothing. Monster: whatever the page count \<open>M\<close>, one request follows the planning
  request, to the search URL with \<open>&start=M\<close> appended, and the listings of that one
  document are returned; if the request fails, so does the call.
\<close>

theorem aggregate_of_planned_pages:
  "(gd_post env (gd_search_url env) = Inr (u, soup)
      \<and> glassdoor_get_num_search_result_pages env soup = Inr N
      \<and> (N \<le> 1 \<or> li_next soup = Anchor part_url)
      \<and> is_pool_order order (nat N)
    \<longrightarrow>
      pool_requests (glassdoor_get_job_soups_from_search_result_listings env order)
        = mset (map (\<lambda>p. GET (page_address (gd_domain env) u part_url p)) [1..N])
      \<and> (\<exists>frags.
            returned (glassdoor_get_job_soups_from_search_result_listings env order) = Inr frags
            \<and> mset frags
              = mset (concat (map (\<lambda>p. search_page_for_job_soups env
                                        (page_address (gd_domain env) u part_url p)) [1..N]))))
   \<and> (monster_get_num_search_result_pages menv (ms_search_url menv) = Inr M
    \<longrightarrow>
      main_requests (monster_get_job_soups_from_search_result_listings menv)
        = [GET (ms_search_url menv), GET (ms_search_url menv @ ''&start='' @ py_str M)]
      \<and> pool_requests (monster_get_job_soups_from_search_result_listings menv) = {#}
      \<and> returned (monster_get_job_soups_from_search_result_listings menv)
        = (case ms_get menv (ms_search_url menv @ ''&start='' @ py_str M) of
             Inl err \<Rightarrow> Inl err
           | Inr soup \<Rightarrow> Inr (div_flex_row soup)))"
proof (intro conjI impI)
  assume h: "gd_post env (gd_search_url env) = Inr (u, soup)
      \<and> glassdoor_get_num_search_result_pages env soup = Inr N
      \<and> (N \<le> 1 \<or> li_next soup = Anchor part_url)
      \<and> is_pool_order order (nat N)"
  let ?urls = "map (page_address (gd_domain env) u part_url) [1..N]"
  from h have h1: "gd_post env (gd_search_url env) = Inr (u, soup)"
    and h2: "glassdoor_get_num_search_result_pages env soup = Inr N"
    and h3: "N \<le> 1 \<or> li_next soup = Anchor part_url" by simp_all
  have out: "glassdoor_get_job_soups_from_search_result_listings env order =
           \<lparr>main_requests = [POST (gd_search_url env)],
            pool_requests = mset (map GET ?urls),
            returned = Inr (run_pool env order ?urls)\<rparr>"
    by (rule glassdoor_outcome [OF h1 h2 h3])
  show "pool_requests (glassdoor_get_job_soups_from_search_result_listings env order)
        = mset (map (\<lambda>p. GET (page_address (gd_domain env) u part_url p)) [1..N])"
    by (simp add: out multiset.map_comp comp_def)
  have "is_pool_order order (length ?urls)" using h by simp
  then have "mset (run_pool env order ?urls)
      = mset (concat (map (search_page_for_job_soups env) ?urls))"
    by (rule run_pool_mset)
  then show "\<exists>frags.
            returned (glassdoor_get_job_soups_from_search_result_listings env order) = Inr frags
            \<and> mset frags
              = mset (concat (map (\<lambda>p. search_page_for_job_soups env
                                        (page_address (gd_domain env) u part_url p)) [1..N]))"
    by (simp add: out comp_def)
next
  assume "monster_get_num_search_result_pages menv (ms_search_url menv) = Inr M"
  note out = monster_outcome [OF this]
  show "main_requests (monster_get_job_soups_from_search_result_listings menv)
        = [GET (ms_search_url menv), GET (ms_search_url menv @ ''&start='' @ py_str M)]"
    by (simp add: out)
  show "pool_requests (monster_get_job_soups_from_search_result_listings menv) = {#}"
    by (simp add: out)
  show "returned (monster_get_job_soups_from_search_result_listings menv)
        = (case ms_get menv (ms_search_url menv @ ''&start='' @ py_str M) of
             Inl err \<Rightarrow> Inl err
           | Inr soup \<Rightarrow> Inr (div_flex_row soup))"
    by (simp add: out)
qed

text \<open>Three GlassDoor pages, the second of which cannot be fetched, completed in the
  order 3, 1, 2; and the Monster search of three pages.\<close>

theorem aggregate_of_planned_pages_witness:
  "is_pool_order [2, 0, 1] (nat 3)
   \<and> returned (glassdoor_get_job_soups_from_search_result_listings example_glassdoor_env [2, 0, 1])
       = Inr (map example_listing [''c1'', ''a1'', ''a2''])
   \<and> mset (map example_listing [''c1'', ''a1'', ''a2''])
       = mset (concat (map (\<lambda>p. search_page_for_job_soups example_glassdoor_env
            (page_address ''ca'' ''https://www.glassdoor.ca/Job/x.htm'' (Some ''/Job/x_IP2.htm'') p))
            [1..3]))
   \<and> returned (monster_get_job_soups_from_search_result_listings example_monster_env)
       = Inr [example_monster_listing ''303'']"
proof -
  let ?soup = "example_results_page ''61 Jobs'' (Anchor (Some ''/Job/x_IP2.htm'')) [''a1'']"
  let ?u = "''https://www.glassdoor.ca/Job/x.htm''"
  have ord: "is_pool_order [2, 0, 1] (nat 3)" by (simp add: is_pool_order_def upt_rec)
  have post: "gd_post example_glassdoor_env (gd_search_url example_glassdoor_env) = Inr (?u, ?soup)"
    by (simp add: example_glassdoor_env_def)
  have plan: "glassdoor_get_num_search_result_pages example_glassdoor_env ?soup = Inr 3"
    by code_simp
  have nxt: "li_next ?soup = Anchor (Some ''/Job/x_IP2.htm'')"
    by (simp add: example_results_page_def)
  have dom: "gd_domain example_glassdoor_env = ''ca''" by (simp add: example_glassdoor_env_def)
  have mplan: "monster_get_num_search_result_pages example_monster_env
      (ms_search_url example_monster_env) = Inr 3" by code_simp
  note inst = aggregate_of_planned_pages [of example_glassdoor_env ?u ?soup 3
      "Some ''/Job/x_IP2.htm''" "[2, 0, 1]" example_monster_env 3]
  have res: "returned (glassdoor_get_job_soups_from_search_result_listings
      example_glassdoor_env [2, 0, 1]) = Inr (map example_listing [''c1'', ''a1'', ''a2''])"
    by code_simp
  from inst post plan nxt ord obtain frags where
    "returned (glassdoor_get_job_soups_from_search_result_listings example_glassdoor_env [2, 0, 1])
       = Inr frags"
    "mset frags
       = mset (concat (map (\<lambda>p. search_page_for_job_soups example_glassdoor_env
            (page_address (gd_domain example_glassdoor_env) ?u (Some ''/Job/x_IP2.htm'') p)) [1..3]))"
    by blast
  with res dom have agg: "mset (map example_listing [''c1'', ''a1'', ''a2''])
       = mset (concat (map (\<lambda>p. search_page_for_job_soups example_glassdoor_env
            (page_address ''ca'' ?u (Some ''/Job/x_IP2.htm'') p)) [1..3]))"
    by simp
  have "returned (monster_get_job_soups_from_search_result_listings example_monster_env)
       = (case ms_get example_monster_env
                 (ms_search_url example_monster_env @ ''&start='' @ py_str 3) of
             Inl err \<Rightarrow> Inl err
           | Inr soup \<Rightarrow> Inr (div_flex_row soup))"
    using inst mplan by blast
  moreover have "py_str 3 = ''3''" by code_simp
  ultimately have mres: "returned (monster_get_job_soups_from_search_result_listings
      example_monster_env) = Inr [example_monster_listing ''303'']"
    by (simp add: example_monster_env_def)
  from ord res agg mres show ?thesis by blast
qed

text \<open>
  The claim as stated fails for Monster: with three pages planned, two requests are
  made in all, and the listing on the first page, which was fetched, is not in the
  result.
\<close>

theorem aggregate_of_planned_pages_counterexample:
  "monster_get_num_search_result_pages example_monster_env
       (ms_search_url example_monster_env) = Inr 3
   \<and> main_requests (monster_get_job_soups_from_search_result_listings example_monster_env)
       = [GET ''https://www.monster.ca/jobs/search/?q=dev'',
          GET ''https://www.monster.ca/jobs/search/?q=dev&start=3'']
   \<and> pool_requests (monster_get_job_soups_from_search_result_listings example_monster_env) = {#}
   \<and> returned (monster_get_job_soups_from_search_result_listings example_monster_env)
       = Inr [example_monster_listing ''303'']
   \<and> ms_get example_monster_env ''https://www.monster.ca/jobs/search/?q=dev''
       = Inr \<lparr>h2_figure = Some ''(51 Jobs Found)'',
               div_flex_row = [example_monster_listing ''101''],
               id_JobDescription = None\<rparr>
   \<and> example_monster_listing ''101'' \<noteq> example_monster_listing ''303''"
proof -
  have "monster_get_num_search_result_pages example_monster_env
       (ms_search_url example_monster_env) = Inr 3" by code_simp
  moreover have "main_requests (monster_get_job_soups_from_search_result_listings example_monster_env)
       = [GET ''https://www.monster.ca/jobs/search/?q=dev'',
          GET ''https://www.monster.ca/jobs/search/?q=dev&start=3'']" by code_simp
  moreover have "pool_requests (monster_get_job_soups_from_search_result_listings example_monster_env) = {#}"
    using monster_outcome [OF calculation(1)] by simp
  moreover have "returned (monster_get_job_soups_from_search_result_listings example_monster_env)
       = Inr [example_monster_listing ''303'']" by code_simp
  moreover have "ms_get example_monster_env ''https://www.monster.ca/jobs/search/?q=dev''
       = Inr \<lparr>h2_figure = Some ''(51 Jobs Found)'',
               div_flex_row = [example_monster_listing ''101''],
               id_JobDescription = None\<rparr>"
    by (simp add: example_monster_env_def)
  moreover have "example_monster_listing ''101'' \<noteq> example_monster_listing ''303''"
    by (simp add: example_monster_listing_def)
  ultimately show ?thesis by blast
qed

section \<open>A page that cannot be fetched\<close>

lemma concat_map_skip:
  assumes "\<forall>x\<in>set xs. (x = j \<longrightarrow> f x = []) \<and> (x \<noteq> j \<longrightarrow> f x = g x)"
  shows "concat (map f xs) = concat (map g (filter (\<lambda>x. x \<noteq> j) xs))"
  using assms by (induction xs) auto

text \<open>
  Claim C5, as amended. GlassDoor: when planning on the first page succeeded and the
  fetch of one page address fails while the others succeed, the call returns, and
  returns the listings of the other pages. Monster: when the fetch of the listings
  fails, the call raises that exception.
\<close>

theorem one_failed_page_is_absorbed:
  "(gd_post env (gd_search_url env) = Inr (u, soup)
      \<and> glassdoor_get_num_search_result_pages env soup = Inr N
      \<and> (N \<le> 1 \<or> li_next soup = Anchor part_url)
      \<and> is_pool_order order (nat N)
      \<and> gd_get env (page_address (gd_domain env) u part_url j) = Inl e
      \<and> (\<forall>p\<in>set [1..N]. p \<noteq> j \<longrightarrow>
            gd_get env (page_address (gd_domain env) u part_url p) = Inr (doc p))
    \<longrightarrow>
      (\<exists>frags.
         returned (glassdoor_get_job_soups_from_search_result_listings env order) = Inr frags
         \<and> mset frags
           = mset (concat (map (\<lambda>p. li_jl (doc p)) (filter (\<lambda>p. p \<noteq> j) [1..N])))))
   \<and> (monster_get_num_search_result_pages menv (ms_search_url menv) = Inr M
      \<and> ms_get menv (ms_search_url menv @ ''&start='' @ py_str M) = Inl e
    \<longrightarrow> returned (monster_get_job_soups_from_search_result_listings menv) = Inl e)"
proof (intro conjI impI)
  assume h: "gd_post env (gd_search_url env) = Inr (u, soup)
      \<and> glassdoor_get_num_search_result_pages env soup = Inr N
      \<and> (N \<le> 1 \<or> li_next soup = Anchor part_url)
      \<and> is_pool_order order (nat N)
      \<and> gd_get env (page_address (gd_domain env) u part_url j) = Inl e
      \<and> (\<forall>p\<in>set [1..N]. p \<noteq> j \<longrightarrow>
            gd_get env (page_address (gd_domain env) u part_url p) = Inr (doc p))"
  let ?addr = "page_address (gd_domain env) u part_url"
  let ?urls = "map ?addr [1..N]"
  from h have h1: "gd_post env (gd_search_url env) = Inr (u, soup)"
    and h2: "glassdoor_get_num_search_result_pages env soup = Inr N"
    and h3: "N \<le> 1 \<or> li_next soup = Anchor part_url"
    and h4: "is_pool_order order (nat N)"
    and h5: "gd_get env (?addr j) = Inl e"
    and h6: "\<forall>p\<in>set [1..N]. p \<noteq> j \<longrightarrow> gd_get env (?addr p) = Inr (doc p)"
    by simp_all
  have out: "returned (glassdoor_get_job_soups_from_search_result_listings env order)
      = Inr (run_pool env order ?urls)"
    by (simp add: glassdoor_outcome [OF h1 h2 h3])
  have "is_pool_order order (length ?urls)" using h4 by simp
  then have "mset (run_pool env order ?urls)
      = mset (concat (map (search_page_for_job_soups env) ?urls))"
    by (rule run_pool_mset)
  moreover have "concat (map (search_page_for_job_soups env) ?urls)
      = concat (map (\<lambda>p. search_page_for_job_soups env (?addr p)) [1..N])"
    by (simp add: comp_def)
  moreover have "concat (map (\<lambda>p. search_page_for_job_soups env (?addr p)) [1..N])
      = concat (map (\<lambda>p. li_jl (doc p)) (filter (\<lambda>p. p \<noteq> j) [1..N]))"
    by (rule concat_map_skip) (use h5 h6 in \<open>auto simp: search_page_for_job_soups_def\<close>)
  ultimately show "\<exists>frags.
         returned (glassdoor_get_job_soups_from_search_result_listings env order) = Inr frags
         \<and> mset frags
           = mset (concat (map (\<lambda>p. li_jl (doc p)) (filter (\<lambda>p. p \<noteq> j) [1..N])))"
    using out by simp
next
  assume h: "monster_get_num_search_result_pages menv (ms_search_url menv) = Inr M
      \<and> ms_get menv (ms_search_url menv @ ''&start='' @ py_str M) = Inl e"
  then have plan: "monster_get_num_search_result_pages menv (ms_search_url menv) = Inr M"
    by simp
  show "returned (monster_get_job_soups_from_search_result_listings menv) = Inl e"
    using h by (simp add: monster_outcome [OF plan])
qed

text \<open>Page 2 of 3 fails.\<close>

theorem one_failed_page_is_absorbed_witness:
  "is_pool_order [2, 0, 1] (nat 3)
   \<and> gd_get example_glassdoor_env ''https://www.glassdoor.ca/Job/x_IP2.htm'' = Inl RequestException
   \<and> returned (glassdoor_get_job_soups_from_search_result_listings example_glassdoor_env [2, 0, 1])
       = Inr (map example_listing [''c1'', ''a1'', ''a2''])
   \<and> mset (map example_listing [''c1'', ''a1'', ''a2''])
       = mset (map example_listing [''a1'', ''a2''] @ map example_listing [''c1''])"
proof -
  let ?soup = "example_results_page ''61 Jobs'' (Anchor (Some ''/Job/x_IP2.htm'')) [''a1'']"
  let ?u = "''https://www.glassdoor.ca/Job/x.htm''"
  let ?part = "Some ''/Job/x_IP2.htm''"
  let ?doc = "\<lambda>p::int. if p = 1
       then example_results_page ''61 Jobs'' (Anchor (Some ''/Job/x_IP2.htm'')) [''a1'', ''a2'']
       else example_results_page ''61 Jobs'' NoElement [''c1'']"
  have ord: "is_pool_order [2, 0, 1] (nat 3)" by (simp add: is_pool_order_def upt_rec)
  have post: "gd_post example_glassdoor_env (gd_search_url example_glassdoor_env) = Inr (?u, ?soup)"
    by (simp add: example_glassdoor_env_def)
  have plan: "glassdoor_get_num_search_result_pages example_glassdoor_env ?soup = Inr 3"
    by code_simp
  have nxt: "li_next ?soup = Anchor ?part"
    by (simp add: example_results_page_def)
  have dom: "gd_domain example_glassdoor_env = ''ca''" by (simp add: example_glassdoor_env_def)
  have a1: "page_address ''ca'' ?u ?part 1 = ?u" by (simp add: page_address_def)
  have a2: "page_address ''ca'' ?u ?part 2 = ''https://www.glassdoor.ca/Job/x_IP2.htm''"
    by code_simp
  have a3: "page_address ''ca'' ?u ?part 3 = ''https://www.glassdoor.ca/Job/x_IP3.htm''"
    by code_simp
  have upto: "[1..3::int] = [1, 2, 3]" by code_simp
  have fail: "gd_get example_glassdoor_env (page_address (gd_domain example_glassdoor_env) ?u ?part 2)
      = Inl RequestException"
    by (simp add: dom a2) (simp add: example_glassdoor_env_def)
  have others: "\<forall>p\<in>set [1..3]. p \<noteq> 2 \<longrightarrow>
      gd_get example_glassdoor_env (page_address (gd_domain example_glassdoor_env) ?u ?part p)
        = Inr (?doc p)"
    by (simp add: upto dom a1 a3) (simp add: example_glassdoor_env_def)
  have res: "returned (glassdoor_get_job_soups_from_search_result_listings
      example_glassdoor_env [2, 0, 1]) = Inr (map example_listing [''c1'', ''a1'', ''a2''])"
    by code_simp
  from one_failed_page_is_absorbed [of example_glassdoor_env ?u ?soup 3 ?part "[2, 0, 1]" 2
      RequestException ?doc example_monster_env 3]
    post plan nxt ord fail others
  obtain frags where
    "returned (glassdoor_get_job_soups_from_search_result_listings example_glassdoor_env [2, 0, 1])
       = Inr frags"
    "mset frags = mset (concat (map (\<lambda>p. li_jl (?doc p)) (filter (\<lambda>p. p \<noteq> 2) [1..3])))"
    by blast
  with res have "mset (map example_listing [''c1'', ''a1'', ''a2''])
      = mset (concat (map (\<lambda>p. li_jl (?doc p)) (filter (\<lambda>p. p \<noteq> 2) [1..3])))"
    by simp
  then have agg: "mset (map example_listing [''c1'', ''a1'', ''a2''])
      = mset (map example_listing [''a1'', ''a2''] @ map example_listing [''c1''])"
    by (simp add: upto example_results_page_def)
  have "gd_get example_glassdoor_env ''https://www.glassdoor.ca/Job/x_IP2.htm''
      = Inl RequestException"
    by (simp add: example_glassdoor_env_def)
  with ord res agg show ?thesis by blast
qed

text \<open>The claim as stated fails for Monster: planning succeeds, the one fetch of the
  listings fails, and the call raises.\<close>

theorem one_failed_page_counterexample:
  "monster_get_num_search_result_pages
       (example_monster_env\<lparr>ms_get := (\<lambda>url.
          if url = ''https://www.monster.ca/jobs/search/?q=dev''
          then ms_get example_monster_env url else Inl RequestException)\<rparr>)
       ''https://www.monster.ca/jobs/search/?q=dev'' = Inr 3
   \<and> returned (monster_get_job_soups_from_search_result_listings
       (example_monster_env\<lparr>ms_get := (\<lambda>url.
          if url = ''https://www.monster.ca/jobs/search/?q=dev''
          then ms_get example_monster_env url else Inl RequestException)\<rparr>))
     = Inl RequestException"
  by code_simp

section \<open>The first page\<close>

lemma submit_pages_ignores_listings:
  "submit_pages d u (soup\<lparr>li_jl := x\<rparr>) pages = submit_pages d u soup pages"
  by (induction pages) (simp_all split: anchor_lookup.splits)

lemma glassdoor_ignores_first_listings:
  "glassdoor_get_job_soups_from_search_result_listings
     (env\<lparr>gd_post := (\<lambda>url. case gd_post env url of
                           Inl err \<Rightarrow> Inl err
                         | Inr (u, soup) \<Rightarrow> Inr (u, soup\<lparr>li_jl := x\<rparr>))\<rparr>) order
   = glassdoor_get_job_soups_from_search_result_listings env order"
proof (cases "gd_post env (gd_search_url env)")
  case (Inl err)
  then show ?thesis
    by (simp add: glassdoor_get_job_soups_from_search_result_listings_def)
next
  case (Inr r)
  obtain u soup where r: "r = (u, soup)" by (cases r)
  have np: "glassdoor_get_num_search_result_pages
      (env\<lparr>gd_post := (\<lambda>url. case gd_post env url of
                           Inl err \<Rightarrow> Inl err
                         | Inr (u, soup) \<Rightarrow> Inr (u, soup\<lparr>li_jl := x\<rparr>))\<rparr>) (soup\<lparr>li_jl := x\<rparr>)
      = glassdoor_get_num_search_result_pages env soup"
    by (simp add: glassdoor_get_num_search_result_pages_def split: option.splits)
  have rp: "\<And>urls. run_pool
      (env\<lparr>gd_post := (\<lambda>url. case gd_post env url of
                           Inl err \<Rightarrow> Inl err
                         | Inr (u, soup) \<Rightarrow> Inr (u, soup\<lparr>li_jl := x\<rparr>))\<rparr>) order urls
      = run_pool env order urls"
  proof -
    fix urls
    have sp: "\<And>f. search_page_for_job_soups (env\<lparr>gd_post := f\<rparr>)
        = search_page_for_job_soups env"
      by (simp add: fun_eq_iff search_page_for_job_soups_def)
    show "run_pool
      (env\<lparr>gd_post := (\<lambda>url. case gd_post env url of
                           Inl err \<Rightarrow> Inl err
                         | Inr (u, soup) \<Rightarrow> Inr (u, soup\<lparr>li_jl := x\<rparr>))\<rparr>) order urls
      = run_pool env order urls"
      by (simp add: run_pool_def sp cong: if_cong)
  qed
  show ?thesis
    using Inr r
    by (simp add: glassdoor_get_job_soups_from_search_result_listings_def np rp
        submit_pages_ignores_listings Let_def split: sum.splits prod.splits option.splits)
qed

lemma monster_ignores_first_listings:
  "monster_get_job_soups_from_search_result_listings
     (env\<lparr>ms_get := (\<lambda>url. if url = ms_search_url env
                         then (case ms_get env url of
                                 Inl err \<Rightarrow> Inl err
                               | Inr soup \<Rightarrow> Inr (soup\<lparr>div_flex_row := x\<rparr>))
                         else ms_get env url)\<rparr>)
   = monster_get_job_soups_from_search_result_listings env"
  by (simp add: monster_get_job_soups_from_search_result_listings_def
      monster_get_num_search_result_pages_def monster_get_job_soups_from_search_page_def
      monster_page_url_def Let_def split: sum.splits option.splits)

text \<open>
  Claim C7, as amended. The search page is requested first, in the calling thread,
  for planning: by a POST (GlassDoor) or a GET (Monster). The listings of that first
  response are not used: replacing them by any others changes nothing of what the
  call does or returns. GlassDoor with at least one page planned requests the first
  response's URL again, in the pool; Monster requests the search URL once and takes
  the listings from its second request.
\<close>

theorem first_page_fragments_not_reused:
  "glassdoor_get_job_soups_from_search_result_listings
       (env\<lparr>gd_post := (\<lambda>url. case gd_post env url of
                             Inl err \<Rightarrow> Inl err
                           | Inr (u, soup) \<Rightarrow> Inr (u, soup\<lparr>li_jl := x\<rparr>))\<rparr>) order
     = glassdoor_get_job_soups_from_search_result_listings env order
   \<and> (gd_post env (gd_search_url env) = Inr (u, soup)
        \<and> glassdoor_get_num_search_result_pages env soup = Inr N
        \<and> 1 \<le> N \<and> (N \<le> 1 \<or> li_next soup = Anchor part_url)
      \<longrightarrow>
        main_requests (glassdoor_get_job_soups_from_search_result_listings env order)
          = [POST (gd_search_url env)]
        \<and> GET u \<in># pool_requests (glassdoor_get_job_soups_from_search_result_listings env order))
   \<and> monster_get_job_soups_from_search_result_listings
       (menv\<lparr>ms_get := (\<lambda>url. if url = ms_search_url menv
                           then (case ms_get menv url of
                                   Inl err \<Rightarrow> Inl err
                                 | Inr soup \<Rightarrow> Inr (soup\<lparr>div_flex_row := y\<rparr>))
                           else ms_get menv url)\<rparr>)
     = monster_get_job_soups_from_search_result_listings menv
   \<and> (monster_get_num_search_result_pages menv (ms_search_url menv) = Inr M
      \<longrightarrow>
        main_requests (monster_get_job_soups_from_search_result_listings menv)
          = [GET (ms_search_url menv), GET (ms_search_url menv @ ''&start='' @ py_str M)]
        \<and> count_list (main_requests (monster_get_job_soups_from_search_result_listings menv))
             (GET (ms_search_url menv)) = 1)"
proof (intro conjI impI)
  show "glassdoor_get_job_soups_from_search_result_listings
       (env\<lparr>gd_post := (\<lambda>url. case gd_post env url of
                             Inl err \<Rightarrow> Inl err
                           | Inr (u, soup) \<Rightarrow> Inr (u, soup\<lparr>li_jl := x\<rparr>))\<rparr>) order
     = glassdoor_get_job_soups_from_search_result_listings env order"
    by (rule glassdoor_ignores_first_listings)
  show "monster_get_job_soups_from_search_result_listings
       (menv\<lparr>ms_get := (\<lambda>url. if url = ms_search_url menv
                           then (case ms_get menv url of
                                   Inl err \<Rightarrow> Inl err
                                 | Inr soup \<Rightarrow> Inr (soup\<lparr>div_flex_row := y\<rparr>))
                           else ms_get menv url)\<rparr>)
     = monster_get_job_soups_from_search_result_listings menv"
    by (rule monster_ignores_first_listings)
next
  assume h: "gd_post env (gd_search_url env) = Inr (u, soup)
        \<and> glassdoor_get_num_search_result_pages env soup = Inr N
        \<and> 1 \<le> N \<and> (N \<le> 1 \<or> li_next soup = Anchor part_url)"
  then have h1: "gd_post env (gd_search_url env) = Inr (u, soup)"
    and h2: "glassdoor_get_num_search_result_pages env soup = Inr N"
    and h3: "N \<le> 1 \<or> li_next soup = Anchor part_url" and N: "1 \<le> N" by simp_all
  note out = glassdoor_outcome [OF h1 h2 h3, of order]
  show "main_requests (glassdoor_get_job_soups_from_search_result_listings env order)
          = [POST (gd_search_url env)]"
    by (simp add: out)
  have "[1..N] = 1 # [2..N]" using N by (simp add: upto_rec1)
  then show "GET u \<in># pool_requests (glassdoor_get_job_soups_from_search_result_listings env order)"
    by (simp add: out page_address_def)
next
  assume "monster_get_num_search_result_pages menv (ms_search_url menv) = Inr M"
  note out = monster_outcome [OF this]
  show "main_requests (monster_get_job_soups_from_search_result_listings menv)
          = [GET (ms_search_url menv), GET (ms_search_url menv @ ''&start='' @ py_str M)]"
    by (simp add: out)
  show "count_list (main_requests (monster_get_job_soups_from_search_result_listings menv))
             (GET (ms_search_url menv)) = 1"
    by (simp add: out)
qed

theorem first_page_fragments_not_reused_witness:
  "glassdoor_get_num_search_result_pages example_glassdoor_env
       (example_results_page ''61 Jobs'' (Anchor (Some ''/Job/x_IP2.htm'')) [''a1'']) = Inr 3
   \<and> main_requests (glassdoor_get_job_soups_from_search_result_listings
         example_glassdoor_env [2, 0, 1]) = [POST ''https://www.glassdoor.ca/Job/jobs.htm'']
   \<and> GET ''https://www.glassdoor.ca/Job/x.htm''
       \<in># pool_requests (glassdoor_get_job_soups_from_search_result_listings
             example_glassdoor_env [2, 0, 1])
   \<and> monster_get_num_search_result_pages example_monster_env
       (ms_search_url example_monster_env) = Inr 3
   \<and> main_requests (monster_get_job_soups_from_search_result_listings example_monster_env)
       = [GET ''https://www.monster.ca/jobs/search/?q=dev'',
          GET ''https://www.monster.ca/jobs/search/?q=dev&start=3'']"
proof -
  let ?soup = "example_results_page ''61 Jobs'' (Anchor (Some ''/Job/x_IP2.htm'')) [''a1'']"
  let ?u = "''https://www.glassdoor.ca/Job/x.htm''"
  have post: "gd_post example_glassdoor_env (gd_search_url example_glassdoor_env) = Inr (?u, ?soup)"
    by (simp add: example_glassdoor_env_def)
  have plan: "glassdoor_get_num_search_result_pages example_glassdoor_env ?soup = Inr 3"
    by code_simp
  have nxt: "li_next ?soup = Anchor (Some ''/Job/x_IP2.htm'')"
    by (simp add: example_results_page_def)
  have mplan: "monster_get_num_search_result_pages example_monster_env
      (ms_search_url example_monster_env) = Inr 3" by code_simp
  have su: "gd_search_url example_glassdoor_env = ''https://www.glassdoor.ca/Job/jobs.htm''"
    by (simp add: example_glassdoor_env_def)
  have msu: "ms_search_url example_monster_env = ''https://www.monster.ca/jobs/search/?q=dev''"
    by (simp add: example_monster_env_def)
  have str: "py_str 3 = ''3''" by code_simp
  note inst = first_page_fragments_not_reused [where env = example_glassdoor_env
      and order = "[2, 0, 1]" and u = ?u and soup = ?soup and N = 3
      and part_url = "Some ''/Job/x_IP2.htm''" and menv = example_monster_env and M = 3]
  from inst post plan nxt have
    "main_requests (glassdoor_get_job_soups_from_search_result_listings
         example_glassdoor_env [2, 0, 1]) = [POST (gd_search_url example_glassdoor_env)]"
    "GET ?u \<in># pool_requests (glassdoor_get_job_soups_from_search_result_listings
             example_glassdoor_env [2, 0, 1])"
    by simp_all
  moreover from inst mplan have
    "main_requests (monster_get_job_soups_from_search_result_listings example_monster_env)
       = [GET (ms_search_url example_monster_env),
          GET (ms_search_url example_monster_env @ ''&start='' @ py_str 3)]"
    by blast
  ultimately show ?thesis using plan mplan by (simp add: su msu str)
qed

text \<open>
  The claim as stated fails for GlassDoor. One page of results whose address cannot
  be fetched a second time: the search page is requested by the POST and again by a
  GET in the pool, and the listing the first response carried is not in the result.
\<close>

theorem first_page_fetched_once_counterexample:
  "gd_post example_unreachable_env (gd_search_url example_unreachable_env)
       = Inr (''https://www.glassdoor.ca/Job/jobs.htm'',
              example_results_page ''12 Jobs'' NoElement [''a1''])
   \<and> li_jl (example_results_page ''12 Jobs'' NoElement [''a1'']) = [example_listing ''a1'']
   \<and> main_requests (glassdoor_get_job_soups_from_search_result_listings
         example_unreachable_env [0]) = [POST ''https://www.glassdoor.ca/Job/jobs.htm'']
   \<and> pool_requests (glassdoor_get_job_soups_from_search_result_listings
         example_unreachable_env [0]) = {#GET ''https://www.glassdoor.ca/Job/jobs.htm''#}
   \<and> returned (glassdoor_get_job_soups_from_search_result_listings
         example_unreachable_env [0]) = Inr []"
proof -
  let ?soup = "example_results_page ''12 Jobs'' NoElement [''a1'']"
  let ?u = "''https://www.glassdoor.ca/Job/jobs.htm''"
  have post: "gd_post example_unreachable_env (gd_search_url example_unreachable_env)
      = Inr (?u, ?soup)"
    by (simp add: example_unreachable_env_def)
  have plan: "glassdoor_get_num_search_result_pages example_unreachable_env ?soup = Inr 1"
    by code_simp
  have one: "[1..1::int] = [1]" by code_simp
  note out = glassdoor_outcome [OF post plan, of "None" "[0]"]
  have "li_jl ?soup = [example_listing ''a1'']" by (simp add: example_results_page_def)
  moreover have "main_requests (glassdoor_get_job_soups_from_search_result_listings
         example_unreachable_env [0]) = [POST ?u]"
    using out by (simp add: example_unreachable_env_def)
  moreover have "pool_requests (glassdoor_get_job_soups_from_search_result_listings
         example_unreachable_env [0]) = {#GET ?u#}"
    using out by (simp add: one page_address_def)
  moreover have "returned (glassdoor_get_job_soups_from_search_result_listings
         example_unreachable_env [0]) = Inr []"
    by code_simp
  ultimately show ?thesis using post by blast
qed

section \<open>A next link without a page index\<close>

lemma re_sub_IP_no_match: "\<not> has_IP_match s \<Longrightarrow> re_sub_IP repl s = s"
  by (induction s) auto

lemma match_IP_needs_underscore: "CHR ''_'' \<noteq> c \<Longrightarrow> match_IP (c # cs) = None"
  by (auto simp: match_IP_def split: list.splits)

lemma has_IP_match_append:
  "CHR ''_'' \<notin> set pre \<Longrightarrow> has_IP_match (pre @ s) = has_IP_match s"
  by (induction pre) (simp_all add: match_IP_needs_underscore)

lemma glassdoor_page_url_no_match:
  assumes "\<not> has_IP_match (py_format part_url)" "CHR ''_'' \<notin> set domain"
  shows "glassdoor_page_url domain part_url page
           = ''https://www.glassdoor.'' @ domain @ py_format part_url"
proof -
  have "CHR ''_'' \<notin> set (''https://www.glassdoor.'' @ domain)" using assms(2) by simp
  then have "has_IP_match ((''https://www.glassdoor.'' @ domain) @ py_format part_url)
      = has_IP_match (py_format part_url)"
    by (rule has_IP_match_append)
  then have "\<not> has_IP_match (''https://www.glassdoor.'' @ domain @ py_format part_url)"
    using assms(1) by simp
  then show ?thesis unfolding glassdoor_page_url_def by (rule re_sub_IP_no_match)
qed

lemma mset_concat_replicate: "mset (concat (replicate k xs)) = repeat_mset k (mset xs)"
  by (induction k) simp_all

text \<open>
  Claim C9. When the \<open>href\<close> of the next link of the first page has no match of
  \<open>_IP\d+\.\<close> (and the configured domain has no underscore, so that no match
  begins before the \<open>href\<close>), the URL built for a page is the same for every page
  index. With \<open>N\<close> pages planned, that one URL is requested \<open>N - 1\<close> times, and
  the result holds the listings of the first response's URL once and those of that
  URL \<open>N - 1\<close> times.
\<close>

theorem same_url_for_all_later_pages:
  "li_next soup = Anchor part_url
     \<and> \<not> has_IP_match (py_format part_url)
     \<and> CHR ''_'' \<notin> set (gd_domain env)
     \<and> gd_post env (gd_search_url env) = Inr (u, soup)
     \<and> glassdoor_get_num_search_result_pages env soup = Inr N
     \<and> 1 \<le> N
     \<and> is_pool_order order (nat N)
   \<longrightarrow>
     (\<forall>p. glassdoor_page_url (gd_domain env) part_url p
            = ''https://www.glassdoor.'' @ gd_domain env @ py_format part_url)
     \<and> pool_requests (glassdoor_get_job_soups_from_search_result_listings env order)
         = {#GET u#}
           + replicate_mset (nat (N - 1))
               (GET (''https://www.glassdoor.'' @ gd_domain env @ py_format part_url))
     \<and> (\<exists>frags.
           returned (glassdoor_get_job_soups_from_search_result_listings env order) = Inr frags
           \<and> mset frags
             = mset (search_page_for_job_soups env u)
               + repeat_mset (nat (N - 1))
                   (mset (search_page_for_job_soups env
                      (''https://www.glassdoor.'' @ gd_domain env @ py_format part_url))))"
proof (intro impI)
  assume h: "li_next soup = Anchor part_url
     \<and> \<not> has_IP_match (py_format part_url)
     \<and> CHR ''_'' \<notin> set (gd_domain env)
     \<and> gd_post env (gd_search_url env) = Inr (u, soup)
     \<and> glassdoor_get_num_search_result_pages env soup = Inr N
     \<and> 1 \<le> N
     \<and> is_pool_order order (nat N)"
  let ?U = "''https://www.glassdoor.'' @ gd_domain env @ py_format part_url"
  let ?urls = "map (page_address (gd_domain env) u part_url) [1..N]"
  from h have nxt: "li_next soup = Anchor part_url"
    and nm: "\<not> has_IP_match (py_format part_url)"
    and dom: "CHR ''_'' \<notin> set (gd_domain env)"
    and post: "gd_post env (gd_search_url env) = Inr (u, soup)"
    and plan: "glassdoor_get_num_search_result_pages env soup = Inr N"
    and N: "1 \<le> N" and ord: "is_pool_order order (nat N)"
    by simp_all
  have same: "\<And>p. glassdoor_page_url (gd_domain env) part_url p = ?U"
    by (rule glassdoor_page_url_no_match [OF nm dom])
  have "[1..N] = 1 # [2..N]" using N by (simp add: upto_rec1)
  moreover have "map (page_address (gd_domain env) u part_url) [2..N] = map (\<lambda>p. ?U) [2..N]"
    by (rule map_cong) (auto simp: page_address_def same)
  ultimately have "?urls = u # map (\<lambda>p. ?U) [2..N]" by (simp add: page_address_def)
  also have "map (\<lambda>p. ?U) [2..N] = replicate (nat (N - 1)) ?U"
    by (simp add: map_replicate_const)
  finally have urls: "?urls = u # replicate (nat (N - 1)) ?U" .
  have nxt': "N \<le> 1 \<or> li_next soup = Anchor part_url" using nxt by simp
  note out = glassdoor_outcome [OF post plan nxt', of order]
  have req: "pool_requests (glassdoor_get_job_soups_from_search_result_listings env order)
         = {#GET u#} + replicate_mset (nat (N - 1)) (GET ?U)"
    unfolding out by (simp add: urls del: upto.simps)
  have "is_pool_order order (length ?urls)" using ord by simp
  then have "mset (run_pool env order ?urls)
      = mset (concat (map (search_page_for_job_soups env) ?urls))"
    by (rule run_pool_mset)
  also have "\<dots> = mset (search_page_for_job_soups env u)
               + repeat_mset (nat (N - 1)) (mset (search_page_for_job_soups env ?U))"
    unfolding urls by (simp add: mset_concat_replicate)
  finally have "mset (run_pool env order ?urls)
      = mset (search_page_for_job_soups env u)
               + repeat_mset (nat (N - 1)) (mset (search_page_for_job_soups env ?U))" .
  then have res: "\<exists>frags.
           returned (glassdoor_get_job_soups_from_search_result_listings env order) = Inr frags
           \<and> mset frags
             = mset (search_page_for_job_soups env u)
               + repeat_mset (nat (N - 1)) (mset (search_page_for_job_soups env ?U))"
    unfolding out by simp
  from same req res show "(\<forall>p. glassdoor_page_url (gd_domain env) part_url p = ?U)
     \<and> pool_requests (glassdoor_get_job_soups_from_search_result_listings env order)
         = {#GET u#} + replicate_mset (nat (N - 1)) (GET ?U)
     \<and> (\<exists>frags.
           returned (glassdoor_get_job_soups_from_search_result_listings env order) = Inr frags
           \<and> mset frags
             = mset (search_page_for_job_soups env u)
               + repeat_mset (nat (N - 1)) (mset (search_page_for_job_soups env ?U)))"
    by blast
qed

text \<open>Three pages and a next link \<open>/Job/next.htm\<close>: that page is requested for
  page 2 and for page 3, and its listing is in the result twice.\<close>

theorem same_url_for_all_later_pages_witness:
  "\<not> has_IP_match (py_format (Some ''/Job/next.htm''))
   \<and> CHR ''_'' \<notin> set (gd_domain example_repeating_env)
   \<and> is_pool_order [0, 1, 2] (nat 3)
   \<and> glassdoor_page_url ''ca'' (Some ''/Job/next.htm'') 2 = ''https://www.glassdoor.ca/Job/next.htm''
   \<and> glassdoor_page_url ''ca'' (Some ''/Job/next.htm'') 3 = ''https://www.glassdoor.ca/Job/next.htm''
   \<and> pool_requests (glassdoor_get_job_soups_from_search_result_listings
         example_repeating_env [0, 1, 2])
       = {#GET ''https://www.glassdoor.ca/Job/x.htm'',
           GET ''https://www.glassdoor.ca/Job/next.htm'',
           GET ''https://www.glassdoor.ca/Job/next.htm''#}
   \<and> returned (glassdoor_get_job_soups_from_search_result_listings
         example_repeating_env [0, 1, 2])
       = Inr (map example_listing [''a1'', ''b1'', ''b1''])"
proof -
  let ?part = "Some ''/Job/next.htm''"
  let ?soup = "example_results_page ''61 Jobs'' (Anchor ?part) [''a1'']"
  let ?u = "''https://www.glassdoor.ca/Job/x.htm''"
  have nm: "\<not> has_IP_match (py_format ?part)" by code_simp
  have dom: "gd_domain example_repeating_env = ''ca''" by (simp add: example_repeating_env_def)
  have us: "CHR ''_'' \<notin> set (gd_domain example_repeating_env)" by (simp add: dom)
  have ord: "is_pool_order [0, 1, 2] (nat 3)" by (simp add: is_pool_order_def upt_rec)
  have post: "gd_post example_repeating_env (gd_search_url example_repeating_env) = Inr (?u, ?soup)"
    by (simp add: example_repeating_env_def)
  have plan: "glassdoor_get_num_search_result_pages example_repeating_env ?soup = Inr 3"
    by code_simp
  have nxt: "li_next ?soup = Anchor ?part" by (simp add: example_results_page_def)
  have res: "returned (glassdoor_get_job_soups_from_search_result_listings
         example_repeating_env [0, 1, 2]) = Inr (map example_listing [''a1'', ''b1'', ''b1''])"
    by code_simp
  have fmt: "py_format ?part = ''/Job/next.htm''" by (simp add: py_format_def)
  have two: "replicate_mset (nat (3 - 1)) x = {#x, x#}" for x :: request
    by (simp add: numeral_2_eq_2)
  from same_url_for_all_later_pages [where soup = ?soup and part_url = ?part
      and env = example_repeating_env and u = ?u and N = 3 and order = "[0, 1, 2]"]
    nxt nm us post plan ord
  have urls: "\<forall>p. glassdoor_page_url (gd_domain example_repeating_env) ?part p
            = ''https://www.glassdoor.'' @ gd_domain example_repeating_env @ py_format ?part"
    and req: "pool_requests (glassdoor_get_job_soups_from_search_result_listings
         example_repeating_env [0, 1, 2])
         = {#GET ?u#}
           + replicate_mset (nat (3 - 1))
               (GET (''https://www.glassdoor.'' @ gd_domain example_repeating_env
                      @ py_format ?part))"
    by simp_all
  from urls have "glassdoor_page_url ''ca'' ?part 2 = ''https://www.glassdoor.ca/Job/next.htm''"
    and "glassdoor_page_url ''ca'' ?part 3 = ''https://www.glassdoor.ca/Job/next.htm''"
    by (simp_all add: dom fmt)
  moreover from req have "pool_requests (glassdoor_get_job_soups_from_search_result_listings
         example_repeating_env [0, 1, 2])
       = {#GET ?u, GET ''https://www.glassdoor.ca/Job/next.htm'',
           GET ''https://www.glassdoor.ca/Job/next.htm''#}"
    by (simp only: two dom fmt) simp
  ultimately show ?thesis using nm us ord res by blast
qed

section \<open>Required fields\<close>















end
